theory Spec2Isabelle
  imports Complex_Main "HOL-Library.AList"
begin

section \<open>Python values and exceptions\<close>

text \<open>
  The scan data is what \<^verbatim>\<open>json.load\<close> returns: \<^verbatim>\<open>None\<close>, booleans, numbers, strings,
  lists and dicts. A dict is kept as its items in insertion order (its keys are distinct).
  JSON numbers are modelled as integers.
\<close>

datatype json =
    JNull
  | JBool bool
  | JInt int
  | JStr string
  | JArr "json list"
  | JObj "(string \<times> json) list"

text \<open>
  The exceptions the program can meet. \<^verbatim>\<open>SystemExit\<close> is raised by \<^verbatim>\<open>sys.exit\<close> and is
  not a subclass of \<^verbatim>\<open>Exception\<close>; all the others are.
\<close>

datatype exc =
    KeyError
  | TypeError
  | ParserError
  | SystemExit int

fun is_Exception :: "exc \<Rightarrow> bool" where
  "is_Exception (SystemExit _) = False"
| "is_Exception _ = True"

text \<open>\<^verbatim>\<open>d[k]\<close> with a string key: only a dict can be subscripted by a string.\<close>

fun getitem :: "json \<Rightarrow> string \<Rightarrow> exc + json" where
  "getitem (JObj kv) k = (case map_of kv k of None \<Rightarrow> Inl KeyError | Some v \<Rightarrow> Inr v)"
| "getitem _ k = Inl TypeError"

text \<open>
  \<^verbatim>\<open>for x in v\<close>: a list yields its elements, a dict its keys, a string its characters;
  anything else is not iterable.
\<close>

fun py_iter :: "json \<Rightarrow> exc + json list" where
  "py_iter (JArr xs) = Inr xs"
| "py_iter (JObj kv) = Inr (map (\<lambda>p. JStr (fst p)) kv)"
| "py_iter (JStr s) = Inr (map (\<lambda>c. JStr [c]) s)"
| "py_iter _ = Inl TypeError"

fun py_len :: "json \<Rightarrow> exc + nat" where
  "py_len (JArr xs) = Inr (length xs)"
| "py_len (JObj kv) = Inr (length kv)"
| "py_len (JStr s) = Inr (length s)"
| "py_len _ = Inl TypeError"

text \<open>Truth value of a Python object, as \<^verbatim>\<open>1 if v else 0\<close> tests it.\<close>

fun truthy :: "json \<Rightarrow> bool" where
  "truthy JNull = False"
| "truthy (JBool b) = b"
| "truthy (JInt n) = (n \<noteq> 0)"
| "truthy (JStr s) = (s \<noteq> [])"
| "truthy (JArr xs) = (xs \<noteq> [])"
| "truthy (JObj kv) = (kv \<noteq> [])"

text \<open>
  A value handed to the worksheet: a JSON value taken from the record, or a date-time
  produced by \<^verbatim>\<open>convert_datetime\<close>. A date-time is represented by the serial number the
  spreadsheet stores for it (days, with the time of day as the fraction).
\<close>

datatype pyval = J json | DT real

section \<open>Language Column Registry\<close>

record lang_column =
  lang_col :: int
  lang_hidden :: nat

definition DEFAULT_HIDE :: nat where
  "DEFAULT_HIDE = 0"

definition init_lang_columns :: "(string \<times> lang_column) list" where
  "init_lang_columns =
    [(''Apex'', \<lparr>lang_col = 33, lang_hidden = DEFAULT_HIDE\<rparr>),
     (''ASP'', \<lparr>lang_col = 34, lang_hidden = DEFAULT_HIDE\<rparr>),
     (''Cobol'', \<lparr>lang_col = 35, lang_hidden = DEFAULT_HIDE\<rparr>),
     (''CPP'', \<lparr>lang_col = 36, lang_hidden = DEFAULT_HIDE\<rparr>),
     (''CSharp'', \<lparr>lang_col = 37, lang_hidden = DEFAULT_HIDE\<rparr>),
     (''Groovy'', \<lparr>lang_col = 38, lang_hidden = DEFAULT_HIDE\<rparr>),
     (''Go'', \<lparr>lang_col = 39, lang_hidden = DEFAULT_HIDE\<rparr>),
     (''Java'', \<lparr>lang_col = 40, lang_hidden = DEFAULT_HIDE\<rparr>),
     (''JavaScript'', \<lparr>lang_col = 41, lang_hidden = DEFAULT_HIDE\<rparr>),
     (''Kotlin'', \<lparr>lang_col = 42, lang_hidden = DEFAULT_HIDE\<rparr>),
     (''Objc'', \<lparr>lang_col = 43, lang_hidden = DEFAULT_HIDE\<rparr>),
     (''PHP'', \<lparr>lang_col = 44, lang_hidden = DEFAULT_HIDE\<rparr>),
     (''Perl'', \<lparr>lang_col = 45, lang_hidden = DEFAULT_HIDE\<rparr>),
     (''Python'', \<lparr>lang_col = 46, lang_hidden = DEFAULT_HIDE\<rparr>),
     (''Ruby'', \<lparr>lang_col = 47, lang_hidden = DEFAULT_HIDE\<rparr>),
     (''Scala'', \<lparr>lang_col = 48, lang_hidden = DEFAULT_HIDE\<rparr>),
     (''Typescript'', \<lparr>lang_col = 49, lang_hidden = DEFAULT_HIDE\<rparr>),
     (''VbNet'', \<lparr>lang_col = 50, lang_hidden = DEFAULT_HIDE\<rparr>),
     (''VB6'', \<lparr>lang_col = 51, lang_hidden = DEFAULT_HIDE\<rparr>),
     (''Common'', \<lparr>lang_col = -1, lang_hidden = DEFAULT_HIDE\<rparr>),
     (''PLSQL'', \<lparr>lang_col = -1, lang_hidden = DEFAULT_HIDE\<rparr>),
     (''VbScript'', \<lparr>lang_col = -1, lang_hidden = DEFAULT_HIDE\<rparr>),
     (''Unknown'', \<lparr>lang_col = -1, lang_hidden = DEFAULT_HIDE\<rparr>)]"

section \<open>Table Schema Builder\<close>

text \<open>
  A column of the table: its header, the key of its format in the workbook's format
  table, its width and, for the derived columns, its formula.
\<close>

record column =
  header :: string
  format :: string
  width :: nat
  formula :: "string option"

record table_options =
  name :: string
  columns :: "column list"

definition SCANS_TABLE_NAME :: string where
  "SCANS_TABLE_NAME = ''AllScans''"

definition DEFAULT_COL_WIDTH :: nat where "DEFAULT_COL_WIDTH = 10"
definition DEFAULT_DATE_WIDTH :: nat where "DEFAULT_DATE_WIDTH = 18"
definition DEFAULT_DURATION_WIDTH :: nat where "DEFAULT_DURATION_WIDTH = 14"
definition DEFAULT_RATE_WIDTH :: nat where "DEFAULT_RATE_WIDTH = 12"
definition DEFAULT_RESULT_WIDTH :: nat where "DEFAULT_RESULT_WIDTH = 8"
definition DEFAULT_LANG_WIDTH :: nat where "DEFAULT_LANG_WIDTH = 8"

definition plain_column :: "string \<Rightarrow> string \<Rightarrow> nat \<Rightarrow> column" where
  "plain_column h f w = \<lparr>header = h, format = f, width = w, formula = None\<rparr>"

definition formula_column :: "string \<Rightarrow> string \<Rightarrow> nat \<Rightarrow> string \<Rightarrow> column" where
  "formula_column h f w fm = \<lparr>header = h, format = f, width = w, formula = Some fm\<rparr>"

definition fixed_columns :: "column list" where
  "fixed_columns =
    [plain_column ''ScanId'' ''integer'' DEFAULT_COL_WIDTH,
     plain_column ''ProjectName'' ''general'' 30,
     plain_column ''ProjectId'' ''integer'' DEFAULT_COL_WIDTH,
     plain_column ''TeamId'' ''general'' 36,
     plain_column ''Team'' ''general'' 15,
     plain_column ''EngineId'' ''integer'' DEFAULT_COL_WIDTH,
     plain_column ''Origin'' ''general'' DEFAULT_COL_WIDTH,
     plain_column ''Preset'' ''general'' 28,
     plain_column ''Incr'' ''integer'' 8,
     plain_column ''LOC'' ''integer'' DEFAULT_COL_WIDTH,
     plain_column ''FailedLOC'' ''integer'' 11,
     plain_column ''FileCount'' ''integer'' DEFAULT_COL_WIDTH,
     plain_column ''ScanRequestedOn'' ''datetime'' DEFAULT_DATE_WIDTH,
     plain_column ''QueuedOn'' ''datetime'' DEFAULT_DATE_WIDTH,
     plain_column ''EngineStartedOn'' ''datetime'' DEFAULT_DATE_WIDTH,
     plain_column ''EngineFinishedOn'' ''datetime'' DEFAULT_DATE_WIDTH,
     plain_column ''ScanCompletedOn'' ''datetime'' DEFAULT_DATE_WIDTH,
     formula_column ''ScanDuration'' ''duration'' DEFAULT_DURATION_WIDTH
       ''=IF([@ScanCompletedOn]>0,[@ScanCompletedOn]-[@ScanRequestedOn],0)'',
     formula_column ''SourceTime'' ''duration'' DEFAULT_DURATION_WIDTH
       ''=[@QueuedOn]-[@ScanRequestedOn]'',
     formula_column ''QueuedTime'' ''duration'' DEFAULT_DURATION_WIDTH
       ''=IF([@EngineStartedOn]>0,[@EngineStartedOn]-[@QueuedOn],0)'',
     formula_column ''EngineTime'' ''duration'' DEFAULT_DURATION_WIDTH
       ''=IF([@EngineFinishedOn]>0,[@EngineFinishedOn]-[@QueuedOn],0)'',
     formula_column ''ScanHours'' ''decimal 2'' DEFAULT_COL_WIDTH
       ''=[@ScanDuration]*24'',
     formula_column ''Weekday'' ''integer'' DEFAULT_COL_WIDTH
       ''=WEEKDAY([@ScanRequestedOn])'',
     formula_column ''FullSpeed'' ''integer'' DEFAULT_RATE_WIDTH
       ''=IF(AND([@ScanDuration]>0,[@Incr]=0),[@LOC]/([@ScanDuration]*24),0)'',
     formula_column ''IncrSpeed'' ''integer'' DEFAULT_RATE_WIDTH
       ''=IF(AND([@ScanDuration]>0,[@Incr]=1),[@LOC]/([@ScanDuration]*24),0)'',
     formula_column ''Results'' ''integer'' DEFAULT_RESULT_WIDTH
       ''=SUM([@High],[@Med],[@Low],[@Info])'',
     plain_column ''High'' ''integer'' DEFAULT_RESULT_WIDTH,
     plain_column ''Med'' ''integer'' DEFAULT_RESULT_WIDTH,
     plain_column ''Low'' ''integer'' DEFAULT_RESULT_WIDTH,
     plain_column ''Info'' ''integer'' DEFAULT_RESULT_WIDTH,
     plain_column ''Version'' ''general'' 13,
     plain_column ''Locked'' ''integer'' 8,
     plain_column ''Public'' ''integer'' 8]"

text \<open>
  The loop over the registry appends one column for every language whose index is not
  the sentinel. The test is on the registry entry alone; the scan data is not an argument.
\<close>

fun lang_headers :: "(string \<times> lang_column) list \<Rightarrow> column list" where
  "lang_headers [] = []"
| "lang_headers ((lang, lc) # rest) =
     (if lang_col lc > -1
      then plain_column lang ''integer'' DEFAULT_LANG_WIDTH # lang_headers rest
      else lang_headers rest)"

definition init_scans_ws_options :: "(string \<times> lang_column) list \<Rightarrow> table_options" where
  "init_scans_ws_options lang_columns =
     \<lparr>name = SCANS_TABLE_NAME, columns = fixed_columns @ lang_headers lang_columns\<rparr>"

section \<open>Record Normalizer\<close>

text \<open>
  \<^verbatim>\<open>dateutil.parser.parse\<close> is a library function; it is a parameter \<open>parse\<close> of the
  model, giving \<open>None\<close> where the library raises on an unparsable string. An argument
  that is not a string raises a \<^verbatim>\<open>TypeError\<close>.
\<close>

fun convert_datetime :: "(string \<Rightarrow> real option) \<Rightarrow> json \<Rightarrow> exc + real" where
  "convert_datetime parse (JStr s) =
     (case parse s of None \<Rightarrow> Inl ParserError | Some d \<Rightarrow> Inr d)"
| "convert_datetime parse _ = Inl TypeError"

record row_cell =
  cell_value :: pyval
  cell_col :: int

text \<open>
  How the value of a fixed cell is computed from the record: \<^verbatim>\<open>scan[k]\<close>,
  \<^verbatim>\<open>1 if scan[k] else 0\<close>, \<^verbatim>\<open>convert_datetime(scan[k])\<close> or the constant \<^verbatim>\<open>None\<close>.
\<close>

datatype source = Field string | Flag string | Date string | Nothing

fun eval_source :: "(string \<Rightarrow> real option) \<Rightarrow> json \<Rightarrow> source \<Rightarrow> exc + pyval" where
  "eval_source parse scan (Field k) =
     (case getitem scan k of Inl e \<Rightarrow> Inl e | Inr v \<Rightarrow> Inr (J v))"
| "eval_source parse scan (Flag k) =
     (case getitem scan k of Inl e \<Rightarrow> Inl e
      | Inr v \<Rightarrow> Inr (J (JInt (if truthy v then 1 else 0))))"
| "eval_source parse scan (Date k) =
     (case getitem scan k of Inl e \<Rightarrow> Inl e
      | Inr v \<Rightarrow> (case convert_datetime parse v of Inl e \<Rightarrow> Inl e | Inr d \<Rightarrow> Inr (DT d)))"
| "eval_source parse scan Nothing = Inr (J JNull)"

text \<open>The entries of the \<^verbatim>\<open>OrderedDict\<close> literal, in the order they are evaluated.\<close>

definition fixed_cells :: "(string \<times> source \<times> int) list" where
  "fixed_cells =
    [(''ScanId'', Field ''Id'', 0),
     (''ProjectName'', Field ''ProjectName'', 1),
     (''ProjectId'', Nothing, 2),
     (''TeamId'', Field ''OwningTeamId'', 3),
     (''Team'', Field ''TeamName'', 4),
     (''EngineId'', Field ''EngineServerId'', 5),
     (''Origin'', Field ''Origin'', 6),
     (''Preset'', Field ''PresetName'', 7),
     (''Incr'', Flag ''IsIncremental'', 8),
     (''LOC'', Field ''LOC'', 9),
     (''FailedLOC'', Field ''FailedLOC'', 10),
     (''FileCount'', Field ''FileCount'', 11),
     (''ScanRequestedOn'', Date ''ScanRequestedOn'', 12),
     (''QueuedOn'', Date ''QueuedOn'', 13),
     (''EngineStartedOn'', Date ''EngineStartedOn'', 14),
     (''EngineFinishedOn'', Date ''EngineFinishedOn'', 15),
     (''ScanCompletedOn'', Date ''ScanCompletedOn'', 16),
     (''High'', Field ''High'', 26),
     (''Med'', Field ''Medium'', 27),
     (''Low'', Field ''Low'', 28),
     (''Info'', Field ''Info'', 29),
     (''Version'', Field ''ProductVersion'', 30),
     (''Locked'', Flag ''IsLocked'', 31),
     (''Public'', Flag ''IsPublic'', 32)]"

fun build_cells ::
  "(string \<Rightarrow> real option) \<Rightarrow> json \<Rightarrow> (string \<times> source \<times> int) list
    \<Rightarrow> exc + (string \<times> row_cell) list" where
  "build_cells parse scan [] = Inr []"
| "build_cells parse scan ((k, src, c) # rest) =
     (case eval_source parse scan src of
        Inl e \<Rightarrow> Inl e
      | Inr v \<Rightarrow>
          (case build_cells parse scan rest of
             Inl e \<Rightarrow> Inl e
           | Inr cells \<Rightarrow> Inr ((k, \<lparr>cell_value = v, cell_col = c\<rparr>) # cells)))"

text \<open>
  \<^verbatim>\<open>lang_columns[lang_name]\<close>: a list or dict is unhashable (\<^verbatim>\<open>TypeError\<close>); a key that
  is not in the registry raises \<^verbatim>\<open>KeyError\<close>. All keys of the registry are strings.
\<close>

fun lookup_lang :: "(string \<times> lang_column) list \<Rightarrow> json \<Rightarrow> exc + string \<times> lang_column" where
  "lookup_lang lang_columns (JStr s) =
     (case map_of lang_columns s of None \<Rightarrow> Inl KeyError | Some lc \<Rightarrow> Inr (s, lc))"
| "lookup_lang lang_columns (JArr xs) = Inl TypeError"
| "lookup_lang lang_columns (JObj kv) = Inl TypeError"
| "lookup_lang lang_columns _ = Inl KeyError"

text \<open>
  The loop over \<^verbatim>\<open>scan['ScannedLanguages']\<close>. Assigning to a key of the ordered dict
  replaces the entry in place when the key is there and appends it otherwise, which is
  what \<open>AList.update\<close> does.
\<close>

fun add_lang_cells ::
  "(string \<times> lang_column) list \<Rightarrow> json list \<Rightarrow> (string \<times> row_cell) list
    \<Rightarrow> exc + (string \<times> row_cell) list" where
  "add_lang_cells lang_columns [] scan_row = Inr scan_row"
| "add_lang_cells lang_columns (lang # rest) scan_row =
     (case getitem lang ''LanguageName'' of
        Inl e \<Rightarrow> Inl e
      | Inr lang_name \<Rightarrow>
          (case lookup_lang lang_columns lang_name of
             Inl e \<Rightarrow> Inl e
           | Inr (s, lc) \<Rightarrow>
               add_lang_cells lang_columns rest
                 (AList.update s \<lparr>cell_value = J (JInt 1), cell_col = lang_col lc\<rparr> scan_row)))"

definition convert_json_scan ::
  "(string \<Rightarrow> real option) \<Rightarrow> json \<Rightarrow> (string \<times> lang_column) list
    \<Rightarrow> exc + (string \<times> row_cell) list" where
  "convert_json_scan parse scan lang_columns =
     (case build_cells parse scan fixed_cells of
        Inl e \<Rightarrow> Inl e
      | Inr scan_row \<Rightarrow>
          (case getitem scan ''ScannedLanguages'' of
             Inl e \<Rightarrow> Inl e
           | Inr langs \<Rightarrow>
               (case py_iter langs of
                  Inl e \<Rightarrow> Inl e
                | Inr items \<Rightarrow> add_lang_cells lang_columns items scan_row)))"

section \<open>Worksheets\<close>

text \<open>
  The spreadsheet library is outside the program. A worksheet is modelled by what the
  program asks of it: the tab colour, the row and column settings, the merged header
  ranges, the frozen panes, the tables added with their range and options, and the cells
  written. A cell range in A1 notation is kept as its two corners (column letters and
  1-based row number).
\<close>

datatype cell_range = CellRange string nat string nat

record worksheet =
  tab_color :: "string option"
  row_settings :: "(nat \<times> real \<times> string) list"
  merged :: "(cell_range \<times> string \<times> string) list"
  frozen :: "(nat \<times> nat) option"
  column_settings :: "(int \<times> int \<times> nat \<times> string option \<times> nat) list"
  tables :: "(cell_range \<times> table_options) list"
  cells :: "nat \<times> nat \<Rightarrow> (pyval \<times> string option) option"

definition new_worksheet :: worksheet where
  "new_worksheet =
     \<lparr>tab_color = None, row_settings = [], merged = [], frozen = None,
      column_settings = [], tables = [], cells = (\<lambda>_. None)\<rparr>"

definition set_tab_color :: "string \<Rightarrow> worksheet \<Rightarrow> worksheet" where
  "set_tab_color c ws = ws\<lparr>tab_color := Some c\<rparr>"

definition set_row :: "nat \<Rightarrow> real \<Rightarrow> string \<Rightarrow> worksheet \<Rightarrow> worksheet" where
  "set_row r h f ws = ws\<lparr>row_settings := row_settings ws @ [(r, h, f)]\<rparr>"

definition merge_range :: "cell_range \<Rightarrow> string \<Rightarrow> string \<Rightarrow> worksheet \<Rightarrow> worksheet" where
  "merge_range rng txt f ws = ws\<lparr>merged := merged ws @ [(rng, txt, f)]\<rparr>"

definition freeze_panes :: "nat \<Rightarrow> nat \<Rightarrow> worksheet \<Rightarrow> worksheet" where
  "freeze_panes r c ws = ws\<lparr>frozen := Some (r, c)\<rparr>"

definition set_column ::
  "int \<Rightarrow> int \<Rightarrow> nat \<Rightarrow> string option \<Rightarrow> nat \<Rightarrow> worksheet \<Rightarrow> worksheet" where
  "set_column c1 c2 w f hid ws =
     ws\<lparr>column_settings := column_settings ws @ [(c1, c2, w, f, hid)]\<rparr>"

definition add_table :: "cell_range \<Rightarrow> table_options \<Rightarrow> worksheet \<Rightarrow> worksheet" where
  "add_table rng opts ws = ws\<lparr>tables := tables ws @ [(rng, opts)]\<rparr>"

text \<open>
  \<^verbatim>\<open>ws.write(row, col, value, format)\<close>. The library dispatches on the type of the value:
  a list or a dict is not a supported type and raises \<^verbatim>\<open>TypeError\<close>; \<^verbatim>\<open>None\<close> and the
  empty string are blank, and a blank without a format is not stored; any other value
  is stored unless the row or the column is negative, in which case the call returns
  without writing. The upper limits of the sheet are not modelled.
\<close>

fun unsupported :: "pyval \<Rightarrow> bool" where
  "unsupported (J (JArr xs)) = True"
| "unsupported (J (JObj kv)) = True"
| "unsupported _ = False"

fun is_blank :: "pyval \<Rightarrow> bool" where
  "is_blank (J JNull) = True"
| "is_blank (J (JStr s)) = (s = [])"
| "is_blank _ = False"

definition ws_write ::
  "int \<Rightarrow> int \<Rightarrow> pyval \<Rightarrow> string option \<Rightarrow> worksheet \<Rightarrow> exc + worksheet" where
  "ws_write row col v f ws =
     (if unsupported v then Inl TypeError
      else if is_blank v \<and> f = None then Inr ws
      else if row < 0 \<or> col < 0 then Inr ws
      else Inr (ws\<lparr>cells := (cells ws)((nat row, nat col) := Some (v, f))\<rparr>))"

section \<open>Writing the scans table\<close>

definition TABLE_TOP_ROWS :: nat where
  "TABLE_TOP_ROWS = 2"

text \<open>The inner loop of the row writer: one \<^verbatim>\<open>ws.write\<close> per cell of the row, in order.\<close>

fun write_row :: "int \<Rightarrow> (string \<times> row_cell) list \<Rightarrow> worksheet \<Rightarrow> exc option \<times> worksheet" where
  "write_row r [] ws = (None, ws)"
| "write_row r ((k, cell) # rest) ws =
     (case ws_write r (cell_col cell) (cell_value cell) None ws of
        Inl e \<Rightarrow> (Some e, ws)
      | Inr ws' \<Rightarrow> write_row r rest ws')"

text \<open>
  The outer loop: record number \<open>i\<close> is normalized and written into sheet row
  \<open>i + TABLE_TOP_ROWS\<close>. An exception leaves the sheet as it is at that point.
\<close>

fun populate ::
  "(string \<Rightarrow> real option) \<Rightarrow> (string \<times> lang_column) list \<Rightarrow> json list \<Rightarrow> nat
    \<Rightarrow> worksheet \<Rightarrow> exc option \<times> worksheet" where
  "populate parse lang_columns [] i ws = (None, ws)"
| "populate parse lang_columns (scan_item # rest) i ws =
     (case convert_json_scan parse scan_item lang_columns of
        Inl e \<Rightarrow> (Some e, ws)
      | Inr scan_row \<Rightarrow>
          (case write_row (int (i + TABLE_TOP_ROWS)) scan_row ws of
             (Some e, ws') \<Rightarrow> (Some e, ws')
           | (None, ws') \<Rightarrow> populate parse lang_columns rest (i + 1) ws'))"

text \<open>The loop that sets the width of every column of the table, \<^verbatim>\<open>ProjectId\<close> hidden.\<close>

fun set_widths :: "column list \<Rightarrow> int \<Rightarrow> worksheet \<Rightarrow> worksheet" where
  "set_widths [] col ws = ws"
| "set_widths (column # rest) col ws =
     set_widths rest (col + 1)
       (set_column col col (width column) None
          (if header column = ''ProjectId'' then 1 else 0) ws)"

definition DEFAULT_LANG_COL_WIDTH :: nat where
  "DEFAULT_LANG_COL_WIDTH = 8"

fun set_lang_columns :: "(string \<times> lang_column) list \<Rightarrow> worksheet \<Rightarrow> worksheet" where
  "set_lang_columns [] ws = ws"
| "set_lang_columns ((lang, lc) # rest) ws =
     set_lang_columns rest
       (if lang_col lc > -1
        then set_column (lang_col lc) (lang_col lc) DEFAULT_LANG_COL_WIDTH None (lang_hidden lc) ws
        else ws)"

text \<open>\<^verbatim>\<open>'A{}:AX{}'.format(TABLE_TOP_ROWS, TABLE_TOP_ROWS + num_scans)\<close>\<close>

definition table_range :: "nat \<Rightarrow> cell_range" where
  "table_range num_scans = CellRange ''A'' TABLE_TOP_ROWS ''AX'' (TABLE_TOP_ROWS + num_scans)"

text \<open>
  The part of \<^verbatim>\<open>write_scans_ws\<close> between fetching the sheet and the data rows: header
  rows, column widths, language columns and the table.
\<close>

definition layout_scans_ws ::
  "nat \<Rightarrow> (string \<times> lang_column) list \<Rightarrow> table_options \<Rightarrow> worksheet \<Rightarrow> worksheet" where
  "layout_scans_ws num_scans lang_columns options ws =
     add_table (table_range num_scans) options
       (set_lang_columns lang_columns
         (set_widths (columns options) 0
           (freeze_panes 2 2
             (merge_range (CellRange ''AH'' 1 ''AX'' 1) ''Languages'' ''header_merge''
               (merge_range (CellRange ''Z'' 1 ''AD'' 1) ''Result counts'' ''header_merge''
                 (merge_range (CellRange ''W'' 1 ''Y'' 1) ''Rates per hour'' ''header_merge''
                   (merge_range (CellRange ''R'' 1 ''V'' 1) ''Durations'' ''header_merge''
                     (merge_range (CellRange ''M'' 1 ''Q'' 1) ''Date Timestamps'' ''header_merge''
                       (set_row 0 (144 / 10) ''header_color'' ws)))))))))"

section \<open>Sequencing\<close>

text \<open>
  A statement is a function from the state to the state after it, together with the
  exception it raised, if any. A block runs its statements in order and stops at the
  first exception, keeping the state reached.
\<close>

fun run_steps :: "('s \<Rightarrow> exc option \<times> 's) list \<Rightarrow> 's \<Rightarrow> exc option \<times> 's" where
  "run_steps [] s = (None, s)"
| "run_steps (f # fs) s =
     (case f s of (Some e, s') \<Rightarrow> (Some e, s') | (None, s') \<Rightarrow> run_steps fs s')"

definition ok :: "('s \<Rightarrow> 's) \<Rightarrow> 's \<Rightarrow> exc option \<times> 's" where
  "ok f s = (None, f s)"

definition write_step ::
  "int \<Rightarrow> int \<Rightarrow> pyval \<Rightarrow> string option \<Rightarrow> worksheet \<Rightarrow> exc option \<times> worksheet" where
  "write_step row col v f ws =
     (case ws_write row col v f ws of Inl e \<Rightarrow> (Some e, ws) | Inr ws' \<Rightarrow> (None, ws'))"

section \<open>Summary Aggregator\<close>

fun write_headers ::
  "int \<Rightarrow> int \<Rightarrow> string list \<Rightarrow> string option \<Rightarrow> worksheet \<Rightarrow> exc option \<times> worksheet" where
  "write_headers row cur_col [] f ws = (None, ws)"
| "write_headers row cur_col (item # rest) f ws =
     (case write_step row cur_col (J (JStr item)) f ws of
        (Some e, ws') \<Rightarrow> (Some e, ws')
      | (None, ws') \<Rightarrow> write_headers row (cur_col + 1) rest f ws')"

definition write_summary_info ::
  "int \<Rightarrow> int \<Rightarrow> string \<Rightarrow> string \<Rightarrow> string option \<Rightarrow> worksheet \<Rightarrow> exc option \<times> worksheet" where
  "write_summary_info row col title data f =
     run_steps
       [write_step row col (J (JStr title)) None,
        write_step row (col + 1) (J (JStr data)) f]"

text \<open>The per-weekday statistic; the source writes it out seven times, with the day number.\<close>

definition weekday_formula :: "string \<Rightarrow> string \<Rightarrow> string" where
  \<open>weekday_formula TABLE d =
     ''=COUNTIF('' @ TABLE @ ''[Weekday],"='' @ d @ ''")/((MAX('' @ TABLE
       @ ''[ScanRequestedOn])-MIN('' @ TABLE @ ''[ScanRequestedOn]))/7)''\<close>

definition summary_steps :: "string \<Rightarrow> (worksheet \<Rightarrow> exc option \<times> worksheet) list" where
  \<open>summary_steps cust =
    (let TABLE = SCANS_TABLE_NAME; row = 1; col = 1 in
     [ok (set_column 0 0 5 None 0),
      ok (set_column 1 1 20 None 0),
      ok (set_column 2 2 18 (Some ''integer'') 0),
      ok (set_column 3 3 10 (Some ''integer'') 0),
      write_step 0 0 (J (JStr (cust @ '' Scan Summary Info''))) (Some ''bold''),
      write_headers row col [''Scans'', ''Stats''] (Some ''summary header''),
      write_summary_info (row + 1) col ''Start Date''
        (''=MIN('' @ TABLE @ ''[ScanRequestedOn])'') (Some ''datetime''),
      write_summary_info (row + 2) col ''End Date''
        (''=MAX('' @ TABLE @ ''[ScanRequestedOn])'') (Some ''datetime''),
      write_summary_info (row + 3) col ''Days''
        (''=MAX('' @ TABLE @ ''[ScanRequestedOn])-MIN('' @ TABLE @ ''[ScanRequestedOn])'') None,
      write_summary_info (row + 4) col ''Weeks''
        (''=ROUNDUP((MAX('' @ TABLE @ ''[ScanRequestedOn])-MIN('' @ TABLE
           @ ''[ScanRequestedOn]))/7,0)'') None,
      write_summary_info (row + 5) col ''Scans''
        (''=COUNT('' @ TABLE @ ''[ScanId])'') None,
      write_summary_info (row + 6) col ''Completed Scans''
        (''=COUNT('' @ TABLE @ ''[ScanCompletedOn])'') None,
      write_summary_info (row + 7) col ''Scans Inflight''
        (''=COUNT('' @ TABLE @ ''[ScanId])-COUNT('' @ TABLE @ ''[ScanCompletedOn])'') None,
      write_summary_info (row + 8) col ''Full Scans''
        (''=COUNTIF('' @ TABLE @ ''[Incr],"=0")'') None,
      write_summary_info (row + 9) col ''Incr Scans''
        (''=COUNTIF('' @ TABLE @ ''[Incr],"=1")'') None,
      write_step (row + 9) (col + 2)
        (J (JStr (''=COUNTIF('' @ TABLE @ ''[Incr],"=1")/COUNT('' @ TABLE @ ''[ScanId])'')))
        (Some ''percent''),
      write_summary_info (row + 10) col ''Avg Full Scan Rate''
        (''=AVERAGEIF('' @ TABLE @ ''[FullSpeed],"<>0")'') None,
      write_step (row + 10) (col + 2) (J (JStr ''LOC / Hr'')) None,
      write_summary_info (row + 11) col ''Avg Incr Scan Rate''
        (''=AVERAGEIFS('' @ TABLE @ ''[IncrSpeed],'' @ TABLE @ ''[Incr],"=1 ")'') None,
      write_step (row + 11) (col + 2) (J (JStr ''LOC / Hr'')) None,
      write_summary_info (row + 12) col ''Max Scan Rate''
        (''=MAX('' @ TABLE @ ''[FullSpeed])'') None,
      write_step (row + 12) (col + 2) (J (JStr ''LOC / Hr'')) None,
      write_summary_info (row + 13) col ''Avg Scans Per Day''
        (''=COUNT('' @ TABLE @ ''[ScanId])/(MAX('' @ TABLE @ ''[ScanRequestedOn])-MIN(''
           @ TABLE @ ''[ScanRequestedOn]))'') None,
      write_summary_info (row + 14) col ''   Sun'' (weekday_formula TABLE ''1'') None,
      write_summary_info (row + 15) col ''   Mon'' (weekday_formula TABLE ''2'') None,
      write_summary_info (row + 16) col ''   Tue'' (weekday_formula TABLE ''3'') None,
      write_summary_info (row + 17) col ''   Wed'' (weekday_formula TABLE ''4'') None,
      write_summary_info (row + 18) col ''   Thu'' (weekday_formula TABLE ''5'') None,
      write_summary_info (row + 19) col ''   Fri'' (weekday_formula TABLE ''6'') None,
      write_summary_info (row + 20) col ''   Sat'' (weekday_formula TABLE ''7'') None])\<close>

section \<open>The run and its global state\<close>

record Args =
  customer :: string
  scan_data_file :: string
  excel_file :: string
  force :: bool
  debug :: bool

datatype propval = PBool bool | PInt int | PStr string

definition init_wb_formats :: "(string \<times> (string \<times> propval) list) list" where
  "init_wb_formats =
    [(''general'', []),
     (''header'', [(''bold'', PBool True), (''text_wrap'', PBool False)]),
     (''summary header'', [(''bold'', PBool True), (''align'', PStr ''center'')]),
     (''bold'', [(''bold'', PBool True)]),
     (''center'', [(''align'', PStr ''center'')]),
     (''right'', [(''align'', PStr ''right'')]),
     (''date'', [(''num_format'', PStr ''mm/dd/yyyy'')]),
     (''datetime'', [(''num_format'', PStr ''yyyy-mm-dd hh:mm:ss'')]),
     (''date bold'', [(''bold'', PBool True), (''num_format'', PStr ''mm/dd/yyyy'')]),
     (''duration'', [(''num_format'', PStr ''[h]:mm:ss'')]),
     (''duration bold'', [(''bold'', PBool True), (''num_format'', PStr ''[h]:mm:ss'')]),
     (''percent'', [(''num_format'', PStr ''0%'')]),
     (''decimal 2'', [(''num_format'', PStr ''0.00'')]),
     (''integer'', [(''num_format'', PInt 1)]),
     (''long'', [(''num_format'', PInt 3)]),
     (''header_color'', [(''bold'', PInt 1), (''bg_color'', PStr ''#4F81BD''),
        (''font_color'', PStr ''#FFFFFF''), (''border_color'', PStr ''#EEECE1''),
        (''bottom'', PInt 1)]),
     (''bad'', [(''bg_color'', PStr ''#FFC7CE''), (''font_color'', PStr ''#9C0006'')]),
     (''neutral'', [(''bg_color'', PStr ''#FFEB9C''), (''font_color'', PStr ''#9C6500'')]),
     (''good'', [(''bg_color'', PStr ''#C6EFCE''), (''font_color'', PStr ''#006100'')]),
     (''inverse'', [(''bg_color'', PStr ''#000000''), (''font_color'', PStr ''#FFFFFF'')]),
     (''header_merge'', [(''bold'', PInt 1), (''border'', PInt 1), (''align'', PStr ''center''),
        (''valign'', PStr ''vcenter''), (''fg_color'', PStr ''#4F81BD''),
        (''font_color'', PStr ''#FFFFFF''), (''border_color'', PStr ''#EEECE1'')])]"

text \<open>
  The workbook object: the file it will be stored in, its options and document
  properties, the names of its sheets in the order they were added, and whether it has
  been closed. The library stores the file when the workbook is closed, not before.
\<close>

record workbook =
  filename :: string
  remove_timezone :: bool
  default_date_format :: string
  properties :: "(string \<times> string) list"
  sheet_names :: "string list"
  fileclosed :: bool

text \<open>
  What is at the output path: some file that was there before the run, or the stored
  workbook with its sheets and formats.
\<close>

datatype artifact =
    Other
  | Xlsx workbook "(string \<times> worksheet) list" "(string \<times> (string \<times> propval) list) list"

text \<open>The scan data file: absent, empty, not valid JSON, or holding a JSON value.\<close>

datatype input_file = Missing | Empty | Malformed | Loaded json

datatype level = DEBUG | INFO | WARNING | ERROR | CRITICAL

datatype arg = S string | N nat | I int | X real | E exc

text \<open>
  The surroundings of a run: what is at the output path, whether removing it succeeds,
  the scan data file, and the readings of the clock.
\<close>

record env =
  existing :: "artifact option"
  removable :: bool
  scan_data :: input_file
  clock :: "nat \<Rightarrow> real"

text \<open>
  The module's globals (\<^verbatim>\<open>_args\<close>, \<^verbatim>\<open>_log\<close>, \<^verbatim>\<open>_scans_wb\<close>, \<^verbatim>\<open>_wb_formats\<close>,
  \<^verbatim>\<open>_worksheets\<close>) and the outside world the run acts on. \<open>scans_wb = None\<close> is the
  name \<^verbatim>\<open>_scans_wb\<close> not bound yet. A log record is its level, its message template and
  the values formatted into it.
\<close>

record state =
  args :: Args
  logged :: "(level \<times> string \<times> arg list) list"
  scans_wb :: "workbook option"
  wb_formats :: "(string \<times> (string \<times> propval) list) list"
  worksheets :: "(string \<times> worksheet) list"
  out_file :: "artifact option"
  can_remove :: bool
  in_file :: input_file
  readings :: "nat \<Rightarrow> real"
  ticks :: nat

definition boot :: "Args \<Rightarrow> env \<Rightarrow> state" where
  "boot a e =
     \<lparr>args = a, logged = [], scans_wb = None, wb_formats = [], worksheets = [],
      out_file = existing e, can_remove = removable e, in_file = scan_data e,
      readings = clock e, ticks = 0\<rparr>"

definition log_msg :: "level \<Rightarrow> string \<Rightarrow> arg list \<Rightarrow> state \<Rightarrow> state" where
  "log_msg lvl txt as st = st\<lparr>logged := logged st @ [(lvl, txt, as)]\<rparr>"

definition timer :: "state \<Rightarrow> real \<times> state" where
  "timer st = (readings st (ticks st), st\<lparr>ticks := ticks st + 1\<rparr>)"

text \<open>\<^verbatim>\<open>Workbook.close()\<close>: the first call stores the file at the workbook's path.\<close>

definition close_wb :: "workbook \<Rightarrow> state \<Rightarrow> state" where
  "close_wb wb st =
     (if fileclosed wb then st
      else st\<lparr>scans_wb := Some (wb\<lparr>fileclosed := True\<rparr>),
              out_file := Some (Xlsx (wb\<lparr>fileclosed := True\<rparr>) (worksheets st) (wb_formats st))\<rparr>)"

text \<open>
  \<^verbatim>\<open>exit_script\<close> closes the workbook when the name is bound (the \<^verbatim>\<open>NameError\<close> of an
  unbound name is swallowed) and raises \<^verbatim>\<open>SystemExit(code)\<close>.
\<close>

definition exit_script :: "int \<Rightarrow> state \<Rightarrow> exc \<times> state" where
  "exit_script code st =
     (SystemExit code,
      log_msg DEBUG ''Exiting script with exit code {}'' [I code]
        (case scans_wb st of
           None \<Rightarrow> st
         | Some wb \<Rightarrow>
             close_wb wb (log_msg DEBUG ''Closing workbook: {}'' [S (excel_file (args st))] st)))"

definition init_logging :: "state \<Rightarrow> state" where
  "init_logging st =
     log_msg INFO ''{}\<newline>'' [S (customer (args st)), S (scan_data_file (args st)),
         S (excel_file (args st))]
       (log_msg INFO ''{} v{}'' [S ''cxsi.py: CxSAST scan usage insight.'', S ''1.0.0''] st)"

definition new_workbook :: "string \<Rightarrow> string \<Rightarrow> workbook" where
  "new_workbook file cust =
     \<lparr>filename = file, remove_timezone = True, default_date_format = ''yyyy-mm-dd hh:mm:ss'',
      properties =
        [(''title'', cust @ '' CxSAST Usage''),
         (''subject'', ''Scan usage workbook''),
         (''author'', ''Randy Geyer''),
         (''company'', ''Checkmarx''),
         (''comments'', ''Created with Python and XlsxWriter'')],
      sheet_names = [], fileclosed = False\<rparr>"

definition create_scans_wb :: "string \<Rightarrow> bool \<Rightarrow> state \<Rightarrow> (exc + workbook) \<times> state" where
  "create_scans_wb file frc st =
     (if out_file st \<noteq> None then
        (if frc then
           (let st1 = log_msg WARNING ''Excel file exists, overwriting: {}'' [S file] st in
            if can_remove st1
            then (Inr (new_workbook file (customer (args st1))), st1\<lparr>out_file := None\<rparr>)
            else
              (case exit_script 4
                      (log_msg CRITICAL ''Unable to overwrite excel file: {}'' [] st1) of
                 (e, st2) \<Rightarrow> (Inl e, st2)))
         else
           (case exit_script 1
                   (log_msg ERROR ''Excel file exists: {}\<newline>Use -force flag to overwrite''
                      [S file] st) of
              (e, st2) \<Rightarrow> (Inl e, st2)))
      else
        (Inr (new_workbook file (customer (args st))),
         log_msg INFO ''Creating Excel file: {}'' [S file] st))"

text \<open>The worksheets of the workbook, with their tab colours, in the order of the source.\<close>

definition scan_wb_props :: "(string \<times> string) list" where
  "scan_wb_props = [(''Summary'', ''green''), (''Scans'', ''yellow'')]"

fun add_worksheets :: "(string \<times> string) list \<Rightarrow> workbook \<Rightarrow> state \<Rightarrow> state" where
  "add_worksheets [] wb st = st\<lparr>scans_wb := Some wb\<rparr>"
| "add_worksheets ((ws_key, color) # rest) wb st =
     add_worksheets rest (wb\<lparr>sheet_names := sheet_names wb @ [ws_key]\<rparr>)
       (st\<lparr>worksheets := AList.update ws_key (set_tab_color color new_worksheet) (worksheets st)\<rparr>)"

fun add_formats :: "(string \<times> (string \<times> propval) list) list \<Rightarrow> state \<Rightarrow> state" where
  "add_formats [] st = st"
| "add_formats ((k, props) # rest) st =
     add_formats rest (st\<lparr>wb_formats := AList.update k props (wb_formats st)\<rparr>)"

definition init_workbook :: "string \<Rightarrow> bool \<Rightarrow> state \<Rightarrow> exc option \<times> state" where
  "init_workbook file frc st =
     (case create_scans_wb file frc (log_msg DEBUG ''Initializing excel workbook...'' [] st) of
        (Inl e, st1) \<Rightarrow> (Some e, st1)
      | (Inr wb, st1) \<Rightarrow>
          (None,
           add_formats init_wb_formats
             (log_msg DEBUG ''Initializing excel formats...'' []
               (add_worksheets scan_wb_props wb st1))))"

definition init :: "Args \<Rightarrow> state \<Rightarrow> exc option \<times> state" where
  "init a st = init_workbook (excel_file a) (force a) (init_logging (st\<lparr>args := a\<rparr>))"

text \<open>
  \<^verbatim>\<open>load_json\<close>: a missing or empty file exits with code 2 and a file that is not JSON
  with code 3, both through \<^verbatim>\<open>exit_script\<close>. The count that is logged takes
  \<^verbatim>\<open>len(scan_data['value'])\<close>, and the debug listing slices it; neither is guarded.
\<close>

fun sliceable :: "json \<Rightarrow> bool" where
  "sliceable (JArr xs) = True"
| "sliceable (JStr s) = True"
| "sliceable _ = False"

definition load_json :: "string \<Rightarrow> state \<Rightarrow> (exc + json) \<times> state" where
  "load_json file st =
     (let st1 = log_msg INFO ''Loading scan data from json file: {}'' [S file] st;
          quit = (\<lambda>code s. case exit_script code s of (e, s') \<Rightarrow> (Inl e, s'))
      in case in_file st1 of
           Missing \<Rightarrow>
             quit 2 (log_msg WARNING
               ''Scan json data file not found or is empty: {}...exiting'' [S file] st1)
         | Empty \<Rightarrow>
             quit 2 (log_msg WARNING
               ''Scan json data file not found or is empty: {}...exiting'' [S file] st1)
         | Malformed \<Rightarrow>
             quit 3 (log_msg ERROR ''exception'' []
               (log_msg CRITICAL ''Failed to load json: {}'' []
                 (log_msg DEBUG ''Scan json data file found: {}'' [S file] st1)))
         | Loaded data \<Rightarrow>
             (let st2 = log_msg DEBUG ''Scan json data file found: {}'' [S file] st1 in
              case getitem data ''value'' of
                Inl e \<Rightarrow> (Inl e, st2)
              | Inr v \<Rightarrow>
                  (case py_len v of
                     Inl e \<Rightarrow> (Inl e, st2)
                   | Inr n \<Rightarrow>
                       (let st3 = log_msg INFO ''Loaded json, scan count: {}'' [N n] st2 in
                        if debug (args st3) then
                          (if sliceable v
                           then (Inr data, log_msg DEBUG ''First 10 scans...:\<newline>{}'' [] st3)
                           else (Inl TypeError, st3))
                        else (Inr data, st3)))))"

text \<open>
  \<^verbatim>\<open>write_scans_ws\<close>. Every format key the schema names is in the table that
  \<^verbatim>\<open>init_workbook\<close> has filled, so the format lookups are not modelled as fallible.
\<close>

definition put_sheet :: "string \<Rightarrow> worksheet \<Rightarrow> state \<Rightarrow> state" where
  "put_sheet k ws st = st\<lparr>worksheets := AList.update k ws (worksheets st)\<rparr>"

definition write_scans_ws :: "(string \<Rightarrow> real option) \<Rightarrow> json \<Rightarrow> state \<Rightarrow> exc option \<times> state" where
  "write_scans_ws parse scans st =
     (case py_len scans of
        Inl e \<Rightarrow> (Some e, st)
      | Inr num_scans \<Rightarrow>
          (let st1 = log_msg INFO ''Writing scans into worksheet: count={}'' [N num_scans] st;
               (start, st2) = timer st1;
               lang_columns = init_lang_columns;
               options = init_scans_ws_options lang_columns
           in case map_of (worksheets st2) ''Scans'' of
                None \<Rightarrow> (Some KeyError, st2)
              | Some ws \<Rightarrow>
                  (let ws1 = layout_scans_ws num_scans lang_columns options ws in
                   case py_iter scans of
                     Inl e \<Rightarrow> (Some e, put_sheet ''Scans'' ws1 st2)
                   | Inr items \<Rightarrow>
                       (case populate parse lang_columns items 0 ws1 of
                          (Some e, ws2) \<Rightarrow> (Some e, put_sheet ''Scans'' ws2 st2)
                        | (None, ws2) \<Rightarrow>
                            (let (finish, st3) = timer (put_sheet ''Scans'' ws2 st2) in
                             (None,
                              log_msg INFO ''Done; elapsedTime={:0.0f}ms''
                                [X ((finish - start) * 1000)] st3))))))"

definition write_summary_ws :: "json \<Rightarrow> state \<Rightarrow> exc option \<times> state" where
  "write_summary_ws scans st =
     (let st1 = log_msg INFO ''Writing summary data...'' [] st in
      case map_of (worksheets st1) ''Summary'' of
        None \<Rightarrow> (Some KeyError, st1)
      | Some ws \<Rightarrow>
          (case run_steps (summary_steps (customer (args st1))) ws of
             (r, ws') \<Rightarrow> (r, put_sheet ''Summary'' ws' st1)))"

text \<open>The body of the \<^verbatim>\<open>try\<close> block of \<^verbatim>\<open>cxsi\<close>.\<close>

definition try_block :: "(string \<Rightarrow> real option) \<Rightarrow> Args \<Rightarrow> state \<Rightarrow> exc option \<times> state" where
  "try_block parse a st =
     (case init a st of
        (Some e, st1) \<Rightarrow> (Some e, st1)
      | (None, st1) \<Rightarrow>
          (case load_json (scan_data_file (args st1)) st1 of
             (Inl e, st2) \<Rightarrow> (Some e, st2)
           | (Inr data, st2) \<Rightarrow>
               (case getitem data ''value'' of
                  Inl e \<Rightarrow> (Some e, st2)
                | Inr v \<Rightarrow>
                    run_steps [write_scans_ws parse v, write_summary_ws v] st2)))"

text \<open>
  \<^verbatim>\<open>cxsi\<close>: an \<^verbatim>\<open>Exception\<close> raised in the block is logged and the function returns; a
  \<^verbatim>\<open>SystemExit\<close> passes through the handler; without an exception the \<^verbatim>\<open>else\<close> branch calls
  \<^verbatim>\<open>exit_script()\<close>. The result is the exception that leaves the function, if any, and
  the final state.
\<close>

definition cxsi :: "(string \<Rightarrow> real option) \<Rightarrow> Args \<Rightarrow> env \<Rightarrow> exc option \<times> state" where
  "cxsi parse a e =
     (case try_block parse a (boot a e) of
        (Some err, st) \<Rightarrow>
          (if is_Exception err
           then (None, log_msg ERROR ''exception'' [E err]
                         (log_msg CRITICAL ''Unexpected exception:'' [] st))
           else (Some err, st))
      | (None, st) \<Rightarrow> (case exit_script 0 st of (e, st') \<Rightarrow> (Some e, st')))"

text \<open>
  The completion status of the process: the code of a \<^verbatim>\<open>SystemExit\<close>, 1 for any other
  exception that leaves the program, and 0 when the command function returns.
\<close>

fun exit_status :: "exc option \<Rightarrow> int" where
  "exit_status None = 0"
| "exit_status (Some (SystemExit code)) = code"
| "exit_status (Some _) = 1"

section \<open>Reading the report\<close>

text \<open>The sheet of a given name in the workbook stored at the output path.\<close>

definition report_sheet :: "state \<Rightarrow> string \<Rightarrow> worksheet option" where
  "report_sheet st k =
     (case out_file st of Some (Xlsx wb sheets fmts) \<Rightarrow> map_of sheets k | _ \<Rightarrow> None)"

fun is_report :: "artifact option \<Rightarrow> bool" where
  "is_report (Some (Xlsx wb sheets fmts)) = True"
| "is_report _ = False"






section \<open>Formulas as the viewer evaluates them\<close>



















section \<open>Well-formed records\<close>

text \<open>
  The names in a record's language-usage list, and the tracked languages of the registry
  that appear in at least one record of a record set.
\<close>

fun language_names :: "json list \<Rightarrow> string list" where
  "language_names [] = []"
| "language_names (l # ls) =
     (case getitem l ''LanguageName'' of
        Inr (JStr s) \<Rightarrow> s # language_names ls
      | _ \<Rightarrow> language_names ls)"

definition scan_languages :: "json \<Rightarrow> string list" where
  "scan_languages scan =
     (case getitem scan ''ScannedLanguages'' of
        Inr v \<Rightarrow> (case py_iter v of Inr items \<Rightarrow> language_names items | Inl e \<Rightarrow> [])
      | Inl e \<Rightarrow> [])"



text \<open>
  A record is well formed when it is a dict that has every field the normalizer reads
  (the keys of \<open>fixed_cells\<close>), with scalar values, time stamps that are strings the
  date parser accepts, and a list of language entries that each name a language of the
  registry.
\<close>

fun scalar :: "json \<Rightarrow> bool" where
  "scalar (JArr xs) = False"
| "scalar (JObj kv) = False"
| "scalar _ = True"

fun source_ok :: "(string \<Rightarrow> real option) \<Rightarrow> (string \<times> json) list \<Rightarrow> source \<Rightarrow> bool" where
  "source_ok parse kv (Field k) = (case map_of kv k of Some v \<Rightarrow> scalar v | None \<Rightarrow> False)"
| "source_ok parse kv (Flag k) = (map_of kv k \<noteq> None)"
| "source_ok parse kv (Date k) =
     (case map_of kv k of Some (JStr s) \<Rightarrow> parse s \<noteq> None | _ \<Rightarrow> False)"
| "source_ok parse kv Nothing = True"

definition known_language :: "(string \<times> lang_column) list \<Rightarrow> json \<Rightarrow> bool" where
  "known_language reg l =
     (case getitem l ''LanguageName'' of
        Inr (JStr s) \<Rightarrow> map_of reg s \<noteq> None
      | _ \<Rightarrow> False)"

fun well_formed :: "(string \<Rightarrow> real option) \<Rightarrow> (string \<times> lang_column) list \<Rightarrow> json \<Rightarrow> bool" where
  "well_formed parse reg (JObj kv) =
     (list_all (\<lambda>p. source_ok parse kv (fst (snd p))) fixed_cells
      \<and> (case map_of kv ''ScannedLanguages'' of
            Some (JArr ls) \<Rightarrow> list_all (known_language reg) ls
          | _ \<Rightarrow> False))"
| "well_formed parse reg _ = False"


text \<open>The cell the normalizer adds for a language of the registry.\<close>

definition flag_cell :: "(string \<times> lang_column) list \<Rightarrow> string \<Rightarrow> row_cell" where
  "flag_cell reg s = \<lparr>cell_value = J (JInt 1), cell_col = lang_col (the (map_of reg s))\<rparr>"


section \<open>Stages of a run\<close>

text \<open>
  Notions used to state what each stage of a run leaves behind: a state with its log
  erased, the condition under which the workbook gets created, the workbook and sheets
  right after \<^verbatim>\<open>init_workbook\<close>, the scans sheet before the data rows, the summary sheet,
  and whether \<^verbatim>\<open>load_json\<close> gets through its unguarded reads of the scan data.
\<close>

definition quiet :: "state \<Rightarrow> state" where
  "quiet st = st\<lparr>logged := []\<rparr>"

definition ready :: "Args \<Rightarrow> env \<Rightarrow> bool" where
  "ready a e = (existing e = None \<or> (force a \<and> removable e))"

definition fresh_workbook :: "Args \<Rightarrow> workbook" where
  "fresh_workbook a =
     (new_workbook (excel_file a) (customer a))\<lparr>sheet_names := [''Summary'', ''Scans'']\<rparr>"

definition fresh_sheets :: "(string \<times> worksheet) list" where
  "fresh_sheets =
     [(''Summary'', set_tab_color ''green'' new_worksheet),
      (''Scans'', set_tab_color ''yellow'' new_worksheet)]"

definition readable :: "Args \<Rightarrow> json \<Rightarrow> bool" where
  "readable a data =
     (case getitem data ''value'' of
        Inl e \<Rightarrow> False
      | Inr v \<Rightarrow> (case py_len v of Inl e \<Rightarrow> False | Inr n \<Rightarrow> sliceable v \<or> \<not> debug a))"

definition total :: "('s \<Rightarrow> exc option \<times> 's) \<Rightarrow> bool" where
  "total f = (\<forall>s. fst (f s) = None)"

definition after_init :: "Args \<Rightarrow> env \<Rightarrow> state" where
  "after_init a e =
     (boot a e)\<lparr>scans_wb := Some (fresh_workbook a), wb_formats := init_wb_formats,
                worksheets := fresh_sheets, out_file := None\<rparr>"

definition closed_workbook :: "Args \<Rightarrow> workbook" where
  "closed_workbook a = (fresh_workbook a)\<lparr>fileclosed := True\<rparr>"

definition scans_layout :: "nat \<Rightarrow> worksheet" where
  "scans_layout n =
     layout_scans_ws n init_lang_columns (init_scans_ws_options init_lang_columns)
       (set_tab_color ''yellow'' new_worksheet)"

definition summary_sheet :: "Args \<Rightarrow> worksheet" where
  "summary_sheet a =
     snd (run_steps (summary_steps (customer a)) (set_tab_color ''green'' new_worksheet))"

definition report_sheets :: "Args \<Rightarrow> worksheet \<Rightarrow> (string \<times> worksheet) list" where
  "report_sheets a ws2 = [(''Summary'', summary_sheet a), (''Scans'', ws2)]"

definition records :: "env \<Rightarrow> json list" where
  "records e =
     (case scan_data e of
        Loaded data \<Rightarrow>
          (case getitem data ''value'' of
             Inr v \<Rightarrow> (case py_iter v of Inr items \<Rightarrow> items | Inl x \<Rightarrow> [])
           | Inl x \<Rightarrow> [])
      | _ \<Rightarrow> [])"

section \<open>Example inputs\<close>

definition demo_args :: "bool \<Rightarrow> Args" where
  "demo_args frc =
     \<lparr>customer = ''Acme'', scan_data_file = ''scans.json'', excel_file = ''scans.xlsx'',
      force = frc, debug = False\<rparr>"

definition demo_env :: "artifact option \<Rightarrow> input_file \<Rightarrow> env" where
  "demo_env old inp = \<lparr>existing = old, removable = True, scan_data = inp, clock = (\<lambda>n. real n)\<rparr>"

definition demo_parse :: "string \<Rightarrow> real option" where
  "demo_parse s =
     (if s = ''2019-07-04T00:00:00'' then Some 43650
      else if s = ''2019-07-04T12:00:00'' then Some (43650 + 1 / 2)
      else None)"

definition demo_scan :: "int \<Rightarrow> string list \<Rightarrow> json" where
  "demo_scan n langs =
     JObj
      [(''Id'', JInt n),
       (''ProjectName'', JStr ''shop''),
       (''OwningTeamId'', JStr ''t-1''),
       (''TeamName'', JStr ''web''),
       (''ProductVersion'', JStr ''8.9.0''),
       (''EngineServerId'', JInt 1),
       (''Origin'', JStr ''Jenkins''),
       (''PresetName'', JStr ''Default''),
       (''ScanRequestedOn'', JStr ''2019-07-04T00:00:00''),
       (''QueuedOn'', JStr ''2019-07-04T00:00:00''),
       (''EngineStartedOn'', JStr ''2019-07-04T00:00:00''),
       (''EngineFinishedOn'', JStr ''2019-07-04T12:00:00''),
       (''ScanCompletedOn'', JStr ''2019-07-04T12:00:00''),
       (''FileCount'', JInt 12),
       (''LOC'', JInt 1000),
       (''FailedLOC'', JInt 0),
       (''High'', JInt 1),
       (''Medium'', JInt 2),
       (''Low'', JInt 3),
       (''Info'', JInt 4),
       (''IsIncremental'', JBool False),
       (''IsLocked'', JBool False),
       (''IsPublic'', JBool True),
       (''ScannedLanguages'', JArr (map (\<lambda>l. JObj [(''LanguageName'', JStr l)]) langs))]"

definition demo_data :: "json list \<Rightarrow> input_file" where
  "demo_data recs = Loaded (JObj [(''value'', JArr recs)])"

definition demo_row :: "(string \<times> row_cell) list" where
  "demo_row =
     (case convert_json_scan demo_parse (demo_scan 7 [''Java'', ''Common'']) init_lang_columns of
        Inr row \<Rightarrow> row | Inl x \<Rightarrow> [])"







section \<open>Properties of the schema\<close>


lemma registry_cols:
  assumes "map_of init_lang_columns l = Some lc"
  shows "lang_col lc = -1 \<or> (33 \<le> lang_col lc \<and> lang_col lc \<le> 51)"
proof -
  have "\<forall>p \<in> set init_lang_columns.
          lang_col (snd p) = -1 \<or> (33 \<le> lang_col (snd p) \<and> lang_col (snd p) \<le> 51)"
    by (simp add: init_lang_columns_def)
  moreover have "(l, lc) \<in> set init_lang_columns"
    using assms by (rule map_of_SomeD)
  ultimately show ?thesis by force
qed

lemma registry_inj:
  assumes "map_of init_lang_columns l = Some lc" and "map_of init_lang_columns l' = Some lc'"
    and "lang_col lc = lang_col lc'" and "lang_col lc > -1"
  shows "l = l'"
proof -
  let ?T = "filter (\<lambda>p. lang_col (snd p) > -1) init_lang_columns"
  have "distinct (map (\<lambda>p. lang_col (snd p)) ?T)"
    by (simp add: init_lang_columns_def)
  then have inj: "inj_on (\<lambda>p. lang_col (snd p)) (set ?T)"
    by (simp add: distinct_map)
  have m1: "(l, lc) \<in> set ?T" and m2: "(l', lc') \<in> set ?T"
    using assms by (auto dest: map_of_SomeD)
  have "(\<lambda>p. lang_col (snd p)) (l, lc) = (\<lambda>p. lang_col (snd p)) (l', lc')"
    using assms(3) by simp
  from inj_onD [OF inj this m1 m2] show ?thesis by simp
qed

section \<open>Properties of the normalizer\<close>

lemma build_cells_shape:
  "build_cells parse scan spec = Inr cs \<Longrightarrow>
     map fst cs = map fst spec
     \<and> map (\<lambda>p. cell_col (snd p)) cs = map (\<lambda>p. snd (snd p)) spec"
  by (induction spec arbitrary: cs) (auto split: sum.splits)

lemma add_lang_cells_map_of:
  "add_lang_cells reg items row = Inr row' \<Longrightarrow>
     set (language_names items) \<subseteq> dom (map_of reg)
     \<and> length (language_names items) = length items
     \<and> map_of row' =
         (\<lambda>k. if k \<in> set (language_names items) then Some (flag_cell reg k) else map_of row k)
     \<and> (distinct (map fst row) \<longrightarrow> distinct (map fst row'))"
proof (induction items arbitrary: row)
  case Nil
  then show ?case by simp
next
  case (Cons l ls)
  from Cons.prems obtain nm where nm: "getitem l ''LanguageName'' = Inr nm"
    by (auto split: sum.splits)
  from Cons.prems nm obtain s lc where look: "lookup_lang reg nm = Inr (s, lc)"
    by (auto split: sum.splits)
  then have nms: "nm = JStr s" and reg: "map_of reg s = Some lc"
    by (cases nm; auto split: option.splits)+
  from Cons.prems nm look have rest:
    "add_lang_cells reg ls
       (AList.update s \<lparr>cell_value = J (JInt 1), cell_col = lang_col lc\<rparr> row) = Inr row'"
    by simp
  note ih = Cons.IH [OF rest]
  have fc: "flag_cell reg s = \<lparr>cell_value = J (JInt 1), cell_col = lang_col lc\<rparr>"
    by (simp add: flag_cell_def reg)
  show ?case
    using ih nm nms reg fc
    by (auto simp: update_conv distinct_update fun_eq_iff)
qed

lemma convert_json_scan_cases:
  assumes "convert_json_scan parse scan reg = Inr row"
  obtains fixed where "build_cells parse scan fixed_cells = Inr fixed"
    and "set (scan_languages scan) \<subseteq> dom (map_of reg)"
    and "map_of row = (\<lambda>k. if k \<in> set (scan_languages scan) then Some (flag_cell reg k) else map_of fixed k)"
    and "distinct (map fst row)"
proof -
  from assms obtain fixed where f: "build_cells parse scan fixed_cells = Inr fixed"
    by (auto simp: convert_json_scan_def split: sum.splits)
  from assms f obtain v where v: "getitem scan ''ScannedLanguages'' = Inr v"
    by (auto simp: convert_json_scan_def split: sum.splits)
  from assms f v obtain items where it: "py_iter v = Inr items"
    by (auto simp: convert_json_scan_def split: sum.splits)
  from assms f v it have a: "add_lang_cells reg items fixed = Inr row"
    by (simp add: convert_json_scan_def)
  have sl: "scan_languages scan = language_names items"
    by (simp add: scan_languages_def v it)
  have "map fst fixed = map fst fixed_cells"
    using build_cells_shape [OF f] by simp
  then have d: "distinct (map fst fixed)"
    by (simp add: fixed_cells_def)
  show ?thesis
    using that [OF f] add_lang_cells_map_of [OF a] sl d by simp
qed


lemma fixed_cols:
  assumes "build_cells parse scan fixed_cells = Inr fixed" and "(k, c) \<in> set fixed"
  shows "(0 \<le> cell_col c \<and> cell_col c \<le> 16) \<or> (26 \<le> cell_col c \<and> cell_col c \<le> 32)"
proof -
  have "cell_col c \<in> set (map (\<lambda>p. cell_col (snd p)) fixed)"
    using assms(2) by force
  also have "map (\<lambda>p. cell_col (snd p)) fixed = map (\<lambda>p. snd (snd p)) fixed_cells"
    using build_cells_shape [OF assms(1)] by simp
  finally show ?thesis
    by (simp add: fixed_cells_def) linarith
qed

lemma row_cell_cases:
  assumes "convert_json_scan parse scan reg = Inr row" and "(k, c) \<in> set row"
  obtains (lang) "k \<in> set (scan_languages scan)" and "c = flag_cell reg k" and "k \<in> dom (map_of reg)"
  | (fixed) fixed where "build_cells parse scan fixed_cells = Inr fixed" and "(k, c) \<in> set fixed"
      and "k \<notin> set (scan_languages scan)"
proof -
  from assms(1) obtain fixed where f: "build_cells parse scan fixed_cells = Inr fixed"
    and sub: "set (scan_languages scan) \<subseteq> dom (map_of reg)"
    and m: "map_of row = (\<lambda>k. if k \<in> set (scan_languages scan) then Some (flag_cell reg k) else map_of fixed k)"
    and d: "distinct (map fst row)"
    by (rule convert_json_scan_cases)
  from d assms(2) have mk: "map_of row k = Some c" by simp
  show ?thesis
  proof (cases "k \<in> set (scan_languages scan)")
    case True
    with mk m sub show ?thesis by (intro lang) auto
  next
    case False
    with mk m have "map_of fixed k = Some c" by simp
    then have "(k, c) \<in> set fixed" by (rule map_of_SomeD)
    with f False show ?thesis by (intro fixed)
  qed
qed

lemma build_cells_mem:
  "build_cells parse scan spec = Inr cs \<Longrightarrow> (k, cell) \<in> set cs \<Longrightarrow>
     \<exists>src. (k, src, cell_col cell) \<in> set spec \<and> eval_source parse scan src = Inr (cell_value cell)"
proof (induction spec arbitrary: cs)
  case Nil
  then show ?case by simp
next
  case (Cons p spec)
  obtain k0 src0 c0 where p: "p = (k0, src0, c0)" by (cases p)
  from Cons.prems(1) p obtain v rest where v: "eval_source parse scan src0 = Inr v"
    and rest: "build_cells parse scan spec = Inr rest"
    and cs: "cs = (k0, \<lparr>cell_value = v, cell_col = c0\<rparr>) # rest"
    by (auto split: sum.splits)
  show ?case
  proof (cases "(k, cell) \<in> set rest")
    case True
    from Cons.IH [OF rest True] show ?thesis by auto
  next
    case False
    with Cons.prems(2) cs have "k = k0" and "cell = \<lparr>cell_value = v, cell_col = c0\<rparr>" by auto
    with v p show ?thesis by auto
  qed
qed


lemma row_cols:
  assumes "convert_json_scan parse scan init_lang_columns = Inr row" and "(k, c) \<in> set row"
  shows "(0 \<le> cell_col c \<and> cell_col c \<le> 16) \<or> (26 \<le> cell_col c \<and> cell_col c \<le> 32)
     \<or> (33 \<le> cell_col c \<and> cell_col c \<le> 51) \<or> cell_col c = -1"
  using assms
proof (cases rule: row_cell_cases)
  case lang
  then obtain lc where "map_of init_lang_columns k = Some lc" by auto
  with registry_cols [OF this] lang(2) show ?thesis
    by (auto simp: flag_cell_def)
next
  case (fixed fx)
  from fixed_cols [OF fixed(1,2)] show ?thesis by auto
qed

lemma source_ok_eval:
  "source_ok parse kv src \<Longrightarrow> \<exists>v. eval_source parse (JObj kv) src = Inr v \<and> \<not> unsupported v"
  by (cases src) (auto split: option.splits json.splits elim: scalar.elims)

lemma build_cells_ok:
  "list_all (\<lambda>p. source_ok parse kv (fst (snd p))) spec \<Longrightarrow>
     \<exists>cs. build_cells parse (JObj kv) spec = Inr cs"
proof (induction spec)
  case Nil
  then show ?case by simp
next
  case (Cons p spec)
  obtain k src c where p: "p = (k, src, c)" by (cases p)
  with Cons.prems source_ok_eval [of parse kv src]
  obtain v where "eval_source parse (JObj kv) src = Inr v" by auto
  moreover from Cons obtain cs where "build_cells parse (JObj kv) spec = Inr cs" by auto
  ultimately show ?case by (simp add: p)
qed

lemma add_lang_cells_ok:
  "list_all (known_language reg) items \<Longrightarrow> \<exists>row'. add_lang_cells reg items row = Inr row'"
proof (induction items arbitrary: row)
  case Nil
  then show ?case by simp
next
  case (Cons l ls)
  from Cons.prems obtain s lc where "getitem l ''LanguageName'' = Inr (JStr s)" and "map_of reg s = Some lc"
    by (auto simp: known_language_def split: sum.splits json.splits)
  moreover from Cons have "\<exists>row'. add_lang_cells reg ls (AList.update s \<lparr>cell_value = J (JInt 1), cell_col = lang_col lc\<rparr> row) = Inr row'"
    by simp
  ultimately show ?case by simp
qed

section \<open>Properties of the row writer\<close>



lemma ws_write_other:
  "ws_write r c v f ws = Inr ws' \<Longrightarrow> a \<noteq> nat r \<or> int b \<noteq> c \<Longrightarrow> cells ws' (a, b) = cells ws (a, b)"
  by (auto simp: ws_write_def split: if_splits)

lemma write_row_other:
  "write_row r row ws = (res, ws') \<Longrightarrow>
     a \<noteq> nat r \<or> (\<forall>p \<in> set row. cell_col (snd p) \<noteq> int b) \<Longrightarrow>
     cells ws' (a, b) = cells ws (a, b)"
proof (induction row arbitrary: ws)
  case Nil
  then show ?case by simp
next
  case (Cons p row)
  obtain k c where p: "p = (k, c)" by (cases p)
  show ?case
  proof (cases "ws_write r (cell_col c) (cell_value c) None ws")
    case (Inl e)
    with Cons.prems p show ?thesis by simp
  next
    case (Inr ws1)
    with Cons.prems p have rest: "write_row r row ws1 = (res, ws')" by simp
    from Cons.prems(2) have "a \<noteq> nat r \<or> (\<forall>p \<in> set row. cell_col (snd p) \<noteq> int b)" by auto
    from Cons.IH [OF rest this] have "cells ws' (a, b) = cells ws1 (a, b)" .
    also from Cons.prems(2) p have "a \<noteq> nat r \<or> int b \<noteq> cell_col c" by auto
    from ws_write_other [OF Inr this] have "cells ws1 (a, b) = cells ws (a, b)" .
    finally show ?thesis .
  qed
qed

lemma write_row_written:
  "write_row r row ws = (None, ws') \<Longrightarrow> 0 \<le> r \<Longrightarrow> \<not> is_blank v \<Longrightarrow>
     (\<forall>p \<in> set row. cell_col (snd p) = int b \<longrightarrow> cell_value (snd p) = v) \<Longrightarrow>
     (\<exists>p \<in> set row. cell_col (snd p) = int b) \<or> cells ws (nat r, b) = Some (v, None) \<Longrightarrow>
     cells ws' (nat r, b) = Some (v, None)"
proof (induction row arbitrary: ws)
  case Nil
  then show ?case by simp
next
  case (Cons p row)
  obtain k c where p: "p = (k, c)" by (cases p)
  from Cons.prems(1) p obtain ws1 where w: "ws_write r (cell_col c) (cell_value c) None ws = Inr ws1"
    and rest: "write_row r row ws1 = (None, ws')"
    by (auto split: sum.splits)
  have all: "\<forall>p \<in> set row. cell_col (snd p) = int b \<longrightarrow> cell_value (snd p) = v"
    using Cons.prems(4) by simp
  have "(\<exists>p \<in> set row. cell_col (snd p) = int b) \<or> cells ws1 (nat r, b) = Some (v, None)"
  proof (cases "cell_col c = int b")
    case True
    with Cons.prems(4) p have "cell_value c = v" by simp
    with w True Cons.prems(2,3) have "cells ws1 (nat r, b) = Some (v, None)"
      by (auto simp: ws_write_def split: if_splits)
    then show ?thesis by simp
  next
    case False
    then have "cells ws1 (nat r, b) = cells ws (nat r, b)"
      using ws_write_other [OF w, of "nat r" b] by auto
    with Cons.prems(5) p False show ?thesis by auto
  qed
  from Cons.IH [OF rest Cons.prems(2,3) all this] show ?case .
qed

lemma write_row_ok:
  "\<forall>p \<in> set row. \<not> unsupported (cell_value (snd p)) \<Longrightarrow> fst (write_row r row ws) = None"
proof (induction row arbitrary: ws)
  case Nil
  then show ?case by simp
next
  case (Cons p row)
  obtain k c where p: "p = (k, c)" by (cases p)
  with Cons.prems have "\<not> unsupported (cell_value c)" by simp
  then have "\<exists>ws1. ws_write r (cell_col c) (cell_value c) None ws = Inr ws1"
    by (simp add: ws_write_def)
  then obtain ws1 where "ws_write r (cell_col c) (cell_value c) None ws = Inr ws1" ..
  with Cons p show ?case by simp
qed

lemma ws_write_exc: "ws_write r c v f ws = Inl e \<Longrightarrow> e = TypeError"
  by (simp add: ws_write_def split: if_splits)

lemma write_row_exc:
  "write_row r row ws = (Some e, ws') \<Longrightarrow> e = TypeError"
proof (induction row arbitrary: ws)
  case Nil
  then show ?case by simp
next
  case (Cons p row)
  obtain k c where p: "p = (k, c)" by (cases p)
  show ?case
  proof (cases "ws_write r (cell_col c) (cell_value c) None ws")
    case (Inl e')
    with Cons.prems p ws_write_exc [OF Inl] show ?thesis by simp
  next
    case (Inr ws1)
    with Cons.prems p have "write_row r row ws1 = (Some e, ws')" by simp
    from Cons.IH [OF this] show ?thesis .
  qed
qed


lemma populate_other:
  "populate parse reg items i ws = (res, ws') \<Longrightarrow>
     a < i + TABLE_TOP_ROWS \<or> i + TABLE_TOP_ROWS + length items \<le> a \<Longrightarrow>
     cells ws' (a, b) = cells ws (a, b)"
proof (induction items arbitrary: i ws)
  case Nil
  then show ?case by simp
next
  case (Cons s items)
  show ?case
  proof (cases "convert_json_scan parse s reg")
    case (Inl e)
    with Cons.prems show ?thesis by simp
  next
    case (Inr row)
    obtain r1 ws1 where w: "write_row (int (i + TABLE_TOP_ROWS)) row ws = (r1, ws1)"
      by (cases "write_row (int (i + TABLE_TOP_ROWS)) row ws")
    from Cons.prems(2) have "a \<noteq> nat (int (i + TABLE_TOP_ROWS))" by auto
    then have first: "cells ws1 (a, b) = cells ws (a, b)"
      using write_row_other [OF w] by blast
    show ?thesis
    proof (cases r1)
      case None
      with Cons.prems Inr w have rest: "populate parse reg items (i + 1) ws1 = (res, ws')" by simp
      from Cons.prems(2)
      have "a < (i + 1) + TABLE_TOP_ROWS \<or> (i + 1) + TABLE_TOP_ROWS + length items \<le> a" by auto
      from Cons.IH [OF rest this] first show ?thesis by simp
    next
      case (Some e)
      with Cons.prems Inr w first show ?thesis by simp
    qed
  qed
qed

lemma populate_row:
  "populate parse reg items i ws = (None, ws') \<Longrightarrow> j < length items \<Longrightarrow>
     \<exists>row wa wb. convert_json_scan parse (items ! j) reg = Inr row
       \<and> write_row (int (i + j + TABLE_TOP_ROWS)) row wa = (None, wb)
       \<and> (\<forall>b. cells wa (i + j + TABLE_TOP_ROWS, b) = cells ws (i + j + TABLE_TOP_ROWS, b))
       \<and> (\<forall>b. cells ws' (i + j + TABLE_TOP_ROWS, b) = cells wb (i + j + TABLE_TOP_ROWS, b))"
proof (induction items arbitrary: i ws j)
  case Nil
  then show ?case by simp
next
  case (Cons s items)
  from Cons.prems(1) obtain row where row: "convert_json_scan parse s reg = Inr row"
    by (auto split: sum.splits)
  from Cons.prems(1) row obtain ws1 where w: "write_row (int (i + TABLE_TOP_ROWS)) row ws = (None, ws1)"
    and rest: "populate parse reg items (i + 1) ws1 = (None, ws')"
    by (auto split: prod.splits option.splits)
  show ?case
  proof (cases j)
    case 0
    have "\<forall>b. cells ws' (i + TABLE_TOP_ROWS, b) = cells ws1 (i + TABLE_TOP_ROWS, b)"
      using populate_other [OF rest] by simp
    with row w 0 show ?thesis by auto
  next
    case (Suc j')
    with Cons.prems(2) have "j' < length items" by simp
    from Cons.IH [OF rest this] obtain row' wa wb where
      c: "convert_json_scan parse (items ! j') reg = Inr row'"
      and wr: "write_row (int (i + 1 + j' + TABLE_TOP_ROWS)) row' wa = (None, wb)"
      and before: "\<forall>b. cells wa (i + 1 + j' + TABLE_TOP_ROWS, b) = cells ws1 (i + 1 + j' + TABLE_TOP_ROWS, b)"
      and after: "\<forall>b. cells ws' (i + 1 + j' + TABLE_TOP_ROWS, b) = cells wb (i + 1 + j' + TABLE_TOP_ROWS, b)"
      by blast
    have "i + 1 + j' + TABLE_TOP_ROWS \<noteq> nat (int (i + TABLE_TOP_ROWS))" by simp
    then have "\<forall>b. cells ws1 (i + 1 + j' + TABLE_TOP_ROWS, b) = cells ws (i + 1 + j' + TABLE_TOP_ROWS, b)"
      using write_row_other [OF w] by blast
    with before have "\<forall>b. cells wa (i + 1 + j' + TABLE_TOP_ROWS, b) = cells ws (i + 1 + j' + TABLE_TOP_ROWS, b)"
      by simp
    with c wr after Suc show ?thesis by auto
  qed
qed

lemma populate_ok:
  "\<forall>s \<in> set items. \<exists>row. convert_json_scan parse s reg = Inr row
        \<and> (\<forall>p \<in> set row. \<not> unsupported (cell_value (snd p))) \<Longrightarrow>
     fst (populate parse reg items i ws) = None"
proof (induction items arbitrary: i ws)
  case Nil
  then show ?case by simp
next
  case (Cons s items)
  from Cons.prems obtain row where row: "convert_json_scan parse s reg = Inr row"
    and sup: "\<forall>p \<in> set row. \<not> unsupported (cell_value (snd p))" by auto
  obtain r1 ws1 where w: "write_row (int (i + TABLE_TOP_ROWS)) row ws = (r1, ws1)"
    by (cases "write_row (int (i + TABLE_TOP_ROWS)) row ws")
  with write_row_ok [OF sup, of "int (i + TABLE_TOP_ROWS)" ws] have "r1 = None" by simp
  with Cons row w show ?case by simp
qed

lemma getitem_exc: "getitem v k = Inl e \<Longrightarrow> is_Exception e"
  by (cases v) (auto split: option.splits)

lemma py_iter_exc: "py_iter v = Inl e \<Longrightarrow> is_Exception e"
  by (cases v) auto

lemma convert_datetime_exc: "convert_datetime parse v = Inl e \<Longrightarrow> is_Exception e"
  by (cases v) (auto split: option.splits)

lemma eval_source_exc: "eval_source parse scan src = Inl e \<Longrightarrow> is_Exception e"
  by (cases src) (auto split: sum.splits dest: getitem_exc convert_datetime_exc)

lemma build_cells_exc: "build_cells parse scan spec = Inl e \<Longrightarrow> is_Exception e"
proof (induction spec)
  case Nil
  then show ?case by simp
next
  case (Cons p spec)
  obtain k src c where p: "p = (k, src, c)" by (cases p)
  with Cons show ?case
    by (auto split: sum.splits dest: eval_source_exc)
qed

lemma lookup_lang_exc: "lookup_lang reg v = Inl e \<Longrightarrow> is_Exception e"
  by (cases v) (auto split: option.splits)

lemma add_lang_cells_exc: "add_lang_cells reg items row = Inl e \<Longrightarrow> is_Exception e"
proof (induction items arbitrary: row)
  case Nil
  then show ?case by simp
next
  case (Cons l ls)
  then show ?case
    by (auto split: sum.splits prod.splits dest: getitem_exc lookup_lang_exc)
qed

lemma convert_json_scan_exc: "convert_json_scan parse scan reg = Inl e \<Longrightarrow> is_Exception e"
  by (auto simp: convert_json_scan_def split: sum.splits
      dest: build_cells_exc getitem_exc py_iter_exc add_lang_cells_exc)

lemma populate_exc:
  "populate parse reg items i ws = (Some e, ws') \<Longrightarrow> is_Exception e"
proof (induction items arbitrary: i ws)
  case Nil
  then show ?case by simp
next
  case (Cons s items)
  show ?case
  proof (cases "convert_json_scan parse s reg")
    case (Inl e')
    with Cons.prems have e: "e = e'" by simp
    from Inl have "is_Exception e'" by (rule convert_json_scan_exc)
    with e show ?thesis by simp
  next
    case (Inr row)
    obtain r1 ws1 where w: "write_row (int (i + TABLE_TOP_ROWS)) row ws = (r1, ws1)"
      by (cases "write_row (int (i + TABLE_TOP_ROWS)) row ws")
    show ?thesis
    proof (cases r1)
      case None
      with Cons.prems Inr w have "populate parse reg items (i + 1) ws1 = (Some e, ws')" by simp
      from Cons.IH [OF this] show ?thesis .
    next
      case (Some e')
      with Cons.prems Inr w have "e = e'" by simp
      moreover from w Some have "e' = TypeError" by (auto dest: write_row_exc)
      ultimately show ?thesis by simp
    qed
  qed
qed

lemma populate_fails:
  "s \<in> set items \<Longrightarrow> convert_json_scan parse s reg = Inl e \<Longrightarrow>
     fst (populate parse reg items i ws) \<noteq> None"
proof (induction items arbitrary: i ws)
  case Nil
  then show ?case by simp
next
  case (Cons s' items)
  show ?case
  proof (cases "convert_json_scan parse s' reg")
    case (Inl e')
    then show ?thesis by simp
  next
    case (Inr row)
    with Cons.prems have "s \<in> set items" by auto
    note ih = Cons.IH [OF this Cons.prems(2)]
    obtain r1 ws1 where w: "write_row (int (i + TABLE_TOP_ROWS)) row ws = (r1, ws1)"
      by (cases "write_row (int (i + TABLE_TOP_ROWS)) row ws")
    with Inr ih show ?thesis by (cases r1) auto
  qed
qed

lemma exit_script_code: "fst (exit_script code st) = SystemExit code"
  by (simp add: exit_script_def)

lemma quiet_fields:
  assumes "quiet s = quiet t"
  shows "args s = args t" "scans_wb s = scans_wb t" "wb_formats s = wb_formats t"
    "worksheets s = worksheets t" "out_file s = out_file t" "can_remove s = can_remove t"
    "in_file s = in_file t" "readings s = readings t" "ticks s = ticks t"
proof -
  have "args (quiet s) = args (quiet t)" "scans_wb (quiet s) = scans_wb (quiet t)"
    "wb_formats (quiet s) = wb_formats (quiet t)" "worksheets (quiet s) = worksheets (quiet t)"
    "out_file (quiet s) = out_file (quiet t)" "can_remove (quiet s) = can_remove (quiet t)"
    "in_file (quiet s) = in_file (quiet t)" "readings (quiet s) = readings (quiet t)"
    "ticks (quiet s) = ticks (quiet t)"
    using assms by simp_all
  then show "args s = args t" "scans_wb s = scans_wb t" "wb_formats s = wb_formats t"
    "worksheets s = worksheets t" "out_file s = out_file t" "can_remove s = can_remove t"
    "in_file s = in_file t" "readings s = readings t" "ticks s = ticks t"
    by (simp_all add: quiet_def)
qed

lemma quiet_log [simp]: "quiet (log_msg l t as st) = quiet st"
  by (simp add: quiet_def log_msg_def)

section \<open>Properties of the stages of a run\<close>

lemma log_msg_fields [simp]:
  "args (log_msg l t as st) = args st" "scans_wb (log_msg l t as st) = scans_wb st"
  "wb_formats (log_msg l t as st) = wb_formats st" "worksheets (log_msg l t as st) = worksheets st"
  "out_file (log_msg l t as st) = out_file st" "can_remove (log_msg l t as st) = can_remove st"
  "in_file (log_msg l t as st) = in_file st" "readings (log_msg l t as st) = readings st"
  "ticks (log_msg l t as st) = ticks st"
  by (simp_all add: log_msg_def)

lemma quiet_upd [simp]:
  "quiet (st\<lparr>logged := lg\<rparr>) = quiet st"
  "quiet (st\<lparr>args := a\<rparr>) = (quiet st)\<lparr>args := a\<rparr>"
  "quiet (st\<lparr>scans_wb := wb\<rparr>) = (quiet st)\<lparr>scans_wb := wb\<rparr>"
  "quiet (st\<lparr>wb_formats := fm\<rparr>) = (quiet st)\<lparr>wb_formats := fm\<rparr>"
  "quiet (st\<lparr>worksheets := sh\<rparr>) = (quiet st)\<lparr>worksheets := sh\<rparr>"
  "quiet (st\<lparr>out_file := x\<rparr>) = (quiet st)\<lparr>out_file := x\<rparr>"
  "quiet (st\<lparr>can_remove := b\<rparr>) = (quiet st)\<lparr>can_remove := b\<rparr>"
  "quiet (st\<lparr>in_file := i\<rparr>) = (quiet st)\<lparr>in_file := i\<rparr>"
  "quiet (st\<lparr>readings := rd\<rparr>) = (quiet st)\<lparr>readings := rd\<rparr>"
  "quiet (st\<lparr>ticks := n\<rparr>) = (quiet st)\<lparr>ticks := n\<rparr>"
  by (simp_all add: quiet_def)

lemma exit_script_unbound:
  "exit_script code st = (x, st') \<Longrightarrow> scans_wb st = None \<Longrightarrow>
     x = SystemExit code \<and> quiet st' = quiet st"
  by (auto simp: exit_script_def)

lemma exit_script_closes:
  "exit_script code st = (x, st') \<Longrightarrow> scans_wb st = Some wb \<Longrightarrow> \<not> fileclosed wb \<Longrightarrow>
     x = SystemExit code \<and>
     quiet st' = quiet (st\<lparr>scans_wb := Some (wb\<lparr>fileclosed := True\<rparr>),
              out_file := Some (Xlsx (wb\<lparr>fileclosed := True\<rparr>) (worksheets st) (wb_formats st))\<rparr>)"
  by (auto simp: exit_script_def close_wb_def)

lemma add_formats_init: "wb_formats (add_formats init_wb_formats st) = init_wb_formats" if "wb_formats st = []"
  using that by (simp add: init_wb_formats_def)

lemma add_formats_frame:
  "add_formats fs st = st\<lparr>wb_formats := wb_formats (add_formats fs st)\<rparr>"
proof (induction fs arbitrary: st)
  case Nil
  then show ?case by simp
next
  case (Cons p fs)
  obtain k v where p: "p = (k, v)" by (cases p)
  have "add_formats (p # fs) st = add_formats fs (st\<lparr>wb_formats := AList.update k v (wb_formats st)\<rparr>)"
    by (simp add: p)
  also have "\<dots> = (st\<lparr>wb_formats := AList.update k v (wb_formats st)\<rparr>)
      \<lparr>wb_formats := wb_formats (add_formats fs (st\<lparr>wb_formats := AList.update k v (wb_formats st)\<rparr>))\<rparr>"
    by (rule Cons.IH)
  finally show ?case by (simp add: p)
qed

lemma add_formats_fresh:
  assumes "wb_formats st = []"
  shows "add_formats init_wb_formats st = st\<lparr>wb_formats := init_wb_formats\<rparr>"
  using add_formats_frame [of init_wb_formats st] add_formats_init [OF assms] by simp

lemma create_scans_wb_ready:
  assumes "create_scans_wb f frc st = (r, st')" and "out_file st = None \<or> (frc \<and> can_remove st)"
  shows "r = Inr (new_workbook f (customer (args st))) \<and> quiet st' = quiet (st\<lparr>out_file := None\<rparr>)"
proof (cases "out_file st")
  case None
  then have e: "st\<lparr>out_file := None\<rparr> = st" by simp
  from assms None have "r = Inr (new_workbook f (customer (args st))) \<and> quiet st' = quiet st"
    by (auto simp: create_scans_wb_def Let_def)
  then show ?thesis unfolding e .
next
  case (Some x)
  with assms show ?thesis
    by (auto simp: create_scans_wb_def Let_def)
qed

lemma create_scans_wb_conflict:
  assumes "create_scans_wb f frc st = (r, st')" and "out_file st \<noteq> None" and "\<not> (frc \<and> can_remove st)"
    and "scans_wb st = None"
  shows "r = Inl (SystemExit (if frc then 4 else 1)) \<and> quiet st' = quiet st"
  using assms by (auto simp: create_scans_wb_def Let_def exit_script_def)

lemma add_worksheets_props:
  "add_worksheets scan_wb_props wb st =
     st\<lparr>scans_wb := Some (wb\<lparr>sheet_names := sheet_names wb @ [''Summary'', ''Scans'']\<rparr>),
        worksheets :=
          AList.update ''Scans'' (set_tab_color ''yellow'' new_worksheet)
            (AList.update ''Summary'' (set_tab_color ''green'' new_worksheet) (worksheets st))\<rparr>"
  by (simp add: scan_wb_props_def)

lemma init_workbook_ready:
  assumes "init_workbook f frc st = (r, st')"
    and "out_file st = None \<or> (frc \<and> can_remove st)" and "wb_formats st = []" and "worksheets st = []"
  shows "r = None \<and>
         quiet st' = quiet (st\<lparr>scans_wb := Some ((new_workbook f (customer (args st)))\<lparr>sheet_names := [''Summary'', ''Scans'']\<rparr>),
                  wb_formats := init_wb_formats,
                  worksheets := fresh_sheets,
                  out_file := None\<rparr>)"
proof -
  let ?st0 = "log_msg DEBUG ''Initializing excel workbook...'' [] st"
  obtain r1 st1 where c: "create_scans_wb f frc ?st0 = (r1, st1)"
    by (cases "create_scans_wb f frc ?st0")
  have pre: "out_file ?st0 = None \<or> (frc \<and> can_remove ?st0)"
    using assms(2) by (simp add: log_msg_def)
  from create_scans_wb_ready [OF c pre]
  have r1: "r1 = Inr (new_workbook f (customer (args st)))"
    and st1: "quiet st1 = (quiet st)\<lparr>out_file := None\<rparr>"
    by (simp_all add: log_msg_def)
  note f1 = quiet_fields [OF st1 [folded quiet_upd]]
  let ?st2 = "log_msg DEBUG ''Initializing excel formats...'' []
               (add_worksheets scan_wb_props (new_workbook f (customer (args st))) st1)"
  have "wb_formats ?st2 = []"
    using f1 by (simp add: log_msg_def add_worksheets_props assms(3))
  from add_formats_fresh [OF this] assms(1) c r1
  have r: "r = None" and st': "st' = ?st2\<lparr>wb_formats := init_wb_formats\<rparr>"
    by (simp_all add: init_workbook_def)
  have "quiet st' = quiet (st\<lparr>scans_wb := Some ((new_workbook f (customer (args st)))\<lparr>sheet_names := [''Summary'', ''Scans'']\<rparr>),
                  wb_formats := init_wb_formats,
                  worksheets := fresh_sheets,
                  out_file := None\<rparr>)"
    using f1 by (simp add: st' st1 add_worksheets_props assms(4) fresh_sheets_def new_workbook_def)
  then show ?thesis using r by simp
qed

lemma init_ready:
  assumes "init a (boot a e) = (r, st')" and "ready a e"
  shows "r = None \<and>
         quiet st' = quiet ((boot a e)\<lparr>scans_wb := Some (fresh_workbook a),
                     wb_formats := init_wb_formats,
                     worksheets := fresh_sheets,
                     out_file := None\<rparr>)"
proof -
  let ?st = "init_logging ((boot a e)\<lparr>args := a\<rparr>)"
  have 1: "out_file ?st = None \<or> (force a \<and> can_remove ?st)"
    using assms(2) by (simp add: ready_def init_logging_def log_msg_def boot_def)
  have 2: "wb_formats ?st = []" and 3: "worksheets ?st = []"
    by (simp_all add: init_logging_def log_msg_def boot_def)
  have 4: "quiet ?st = quiet (boot a e)" "args ?st = a"
    by (simp_all add: init_logging_def boot_def log_msg_def quiet_def)
  from assms(1) have "init_workbook (excel_file a) (force a) ?st = (r, st')"
    by (simp add: init_def)
  from init_workbook_ready [OF this 1 2 3] 4 show ?thesis
    by (simp add: fresh_workbook_def)
qed

lemma init_conflict:
  assumes "init a (boot a e) = (r, st')" and "\<not> ready a e"
  shows "r = Some (SystemExit (if force a then 4 else 1)) \<and> quiet st' = quiet (boot a e)"
proof -
  let ?st = "log_msg DEBUG ''Initializing excel workbook...'' [] (init_logging ((boot a e)\<lparr>args := a\<rparr>))"
  obtain r1 st1 where c: "create_scans_wb (excel_file a) (force a) ?st = (r1, st1)"
    by (cases "create_scans_wb (excel_file a) (force a) ?st")
  have "out_file ?st \<noteq> None" "\<not> (force a \<and> can_remove ?st)" "scans_wb ?st = None"
    using assms(2) by (auto simp: ready_def init_logging_def log_msg_def boot_def)
  from create_scans_wb_conflict [OF c this]
  have "r1 = Inl (SystemExit (if force a then 4 else 1))" and "quiet st1 = quiet (boot a e)"
    by (simp_all add: init_logging_def boot_def quiet_def log_msg_def)
  with assms(1) c show ?thesis
    by (simp add: init_def init_workbook_def)
qed

lemma py_len_iter: "py_iter v = Inr items \<Longrightarrow> py_len v = Inr (length items)"
  by (cases v) auto

lemma py_iter_len: "py_len v = Inr n \<Longrightarrow> \<exists>items. py_iter v = Inr items"
  by (cases v) auto

lemma py_len_exc: "py_len v = Inl e \<Longrightarrow> is_Exception e"
  by (cases v) auto

lemma load_json_loaded:
  assumes "load_json f st = (r, st')" and "in_file st = Loaded data"
  shows "quiet st' = quiet st"
    and "\<And>d. r = Inr d \<Longrightarrow> d = data \<and> (\<exists>v n. getitem data ''value'' = Inr v \<and> py_len v = Inr n)"
    and "\<And>x. r = Inl x \<Longrightarrow> is_Exception x \<and> \<not> readable (args st) data"
    and "\<And>d. r = Inr d \<Longrightarrow> readable (args st) data"
  using assms
  by (auto simp: load_json_def Let_def readable_def split: sum.splits if_splits dest: getitem_exc py_len_exc)

lemma load_json_ok:
  assumes "in_file st = Loaded data" and "getitem data ''value'' = Inr v" and "py_len v = Inr n"
    and "debug (args st) \<longrightarrow> sliceable v"
  shows "fst (load_json f st) = Inr data"
  using assms by (auto simp: load_json_def Let_def)

lemma load_json_exit:
  assumes "load_json f st = (r, st')" and "\<forall>data. in_file st \<noteq> Loaded data"
    and "scans_wb st = Some wb" and "\<not> fileclosed wb"
  shows "r = Inl (SystemExit (if in_file st = Malformed then 3 else 2)) \<and>
         quiet st' = quiet (st\<lparr>scans_wb := Some (wb\<lparr>fileclosed := True\<rparr>),
              out_file := Some (Xlsx (wb\<lparr>fileclosed := True\<rparr>) (worksheets st) (wb_formats st))\<rparr>)"
  using assms
  by (cases "in_file st") (auto simp: load_json_def Let_def exit_script_def close_wb_def)

lemma timer_fields [simp]:
  "quiet (snd (timer st)) = (quiet st)\<lparr>ticks := ticks st + 1\<rparr>"
  "worksheets (snd (timer st)) = worksheets st"
  by (simp_all add: timer_def)

lemma write_scans_ws_run:
  assumes "write_scans_ws parse v st = (r, st')" and "map_of (worksheets st) ''Scans'' = Some ws"
    and "py_iter v = Inr items"
  shows "\<exists>ws2. populate parse init_lang_columns items 0
                 (layout_scans_ws (length items) init_lang_columns
                    (init_scans_ws_options init_lang_columns) ws) = (r, ws2)
          \<and> quiet st' = quiet (st\<lparr>worksheets := AList.update ''Scans'' ws2 (worksheets st),
                                    ticks := ticks st + (if r = None then 2 else 1)\<rparr>)"
proof -
  let ?ws1 = "layout_scans_ws (length items) init_lang_columns (init_scans_ws_options init_lang_columns) ws"
  obtain r0 ws2 where p: "populate parse init_lang_columns items 0 ?ws1 = (r0, ws2)"
    by (cases "populate parse init_lang_columns items 0 ?ws1")
  from assms p py_len_iter [OF assms(3)] show ?thesis
    by (cases r0) (auto simp: write_scans_ws_def Let_def timer_def put_sheet_def split: prod.splits)
qed

lemma write_scans_ws_uniterable:
  assumes "write_scans_ws parse v st = (r, st')" and "py_iter v = Inl e"
  shows "\<exists>x. r = Some x \<and> is_Exception x" and "st' = st"
  using assms by (cases v; auto simp: write_scans_ws_def)+

lemma run_steps_total: "list_all total fs \<Longrightarrow> fst (run_steps fs s) = None"
proof (induction fs arbitrary: s)
  case Nil
  then show ?case by simp
next
  case (Cons f fs)
  then have "fst (f s) = None" by (simp add: total_def)
  then obtain s' where "f s = (None, s')" by (cases "f s") auto
  with Cons show ?case by simp
qed

lemma total_ok [simp]: "total (ok f)"
  by (simp add: total_def ok_def)

lemma total_write_str [simp]: "total (write_step r c (J (JStr s)) f)"
  by (simp add: total_def write_step_def ws_write_def)

lemma total_write_headers [simp]: "total (write_headers r c xs f)"
proof -
  have "fst (write_headers r c xs f ws) = None" for ws
  proof (induction xs arbitrary: c ws)
    case Nil
    then show ?case by simp
  next
    case (Cons x xs)
    have "fst (write_step r c (J (JStr x)) f ws) = None"
      using total_write_str [of r c x f] by (simp add: total_def)
    then obtain ws' where "write_step r c (J (JStr x)) f ws = (None, ws')"
      by (cases "write_step r c (J (JStr x)) f ws") auto
    with Cons show ?case by simp
  qed
  then show ?thesis by (simp add: total_def)
qed

lemma total_write_summary_info [simp]: "total (write_summary_info r c t d f)"
  unfolding total_def write_summary_info_def
  by (intro allI run_steps_total) simp

lemma summary_ok: "fst (run_steps (summary_steps c) ws) = None"
  by (rule run_steps_total) (simp add: summary_steps_def Let_def)

lemma write_summary_ws_run:
  assumes "write_summary_ws v st = (r, st')" and "map_of (worksheets st) ''Summary'' = Some ws"
  shows "r = None \<and>
         quiet st' = quiet (st\<lparr>worksheets :=
            AList.update ''Summary'' (snd (run_steps (summary_steps (customer (args st))) ws)) (worksheets st)\<rparr>)"
  using assms summary_ok [of "customer (args st)" ws]
  by (auto simp: write_summary_ws_def Let_def put_sheet_def split: prod.splits)

lemma after_init_fields [simp]:
  "args (after_init a e) = a" "scans_wb (after_init a e) = Some (fresh_workbook a)"
  "wb_formats (after_init a e) = init_wb_formats" "worksheets (after_init a e) = fresh_sheets"
  "out_file (after_init a e) = None" "in_file (after_init a e) = scan_data e"
  "ticks (after_init a e) = 0" "readings (after_init a e) = clock e" "can_remove (after_init a e) = removable e"
  by (simp_all add: after_init_def boot_def)

lemma fresh_workbook_open [simp]: "\<not> fileclosed (fresh_workbook a)"
  by (simp add: fresh_workbook_def new_workbook_def)

lemma fresh_sheets_lookup [simp]:
  "map_of fresh_sheets ''Scans'' = Some (set_tab_color ''yellow'' new_worksheet)"
  "map_of fresh_sheets ''Summary'' = Some (set_tab_color ''green'' new_worksheet)"
  by (simp_all add: fresh_sheets_def)

lemma try_block_cases:
  assumes "try_block parse a (boot a e) = (r, st)"
  obtains
    (conflict) "\<not> ready a e" and "r = Some (SystemExit (if force a then 4 else 1))"
      and "quiet st = quiet (boot a e)"
  | (no_input) "ready a e" and "\<forall>data. scan_data e \<noteq> Loaded data"
      and "r = Some (SystemExit (if scan_data e = Malformed then 3 else 2))"
      and "quiet st = quiet ((after_init a e)\<lparr>scans_wb := Some (closed_workbook a),
              out_file := Some (Xlsx (closed_workbook a) fresh_sheets init_wb_formats)\<rparr>)"
  | (bad_input) data x where "ready a e" and "scan_data e = Loaded data"
      and "\<not> readable a data"
      and "r = Some x" and "is_Exception x" and "quiet st = quiet (after_init a e)"
  | (rows) data v items ws2 where "ready a e" and "scan_data e = Loaded data"
      and "readable a data"
      and "getitem data ''value'' = Inr v" and "py_iter v = Inr items"
      and "populate parse init_lang_columns items 0 (scans_layout (length items)) = (r, ws2)"
      and "quiet st = quiet ((after_init a e)\<lparr>
              worksheets := [(''Summary'', if r = None then summary_sheet a
                                           else set_tab_color ''green'' new_worksheet),
                             (''Scans'', ws2)],
              ticks := (if r = None then 2 else 1)\<rparr>)"
proof -
  obtain r1 st1 where i: "init a (boot a e) = (r1, st1)" by (cases "init a (boot a e)")
  show ?thesis
  proof (cases "ready a e")
    case False
    from init_conflict [OF i False] assms i show ?thesis
      by (intro conflict [OF False]) (auto simp: try_block_def)
  next
    case True
    from init_ready [OF i True] have r1: "r1 = None" and q1: "quiet st1 = quiet (after_init a e)"
      by (simp_all add: after_init_def)
    note f1 = quiet_fields [OF q1]
    obtain r2 st2 where l: "load_json (scan_data_file (args st1)) st1 = (r2, st2)"
      by (cases "load_json (scan_data_file (args st1)) st1")
    show ?thesis
    proof (cases "\<exists>data. scan_data e = Loaded data")
      case False
      then have nl: "\<forall>data. in_file st1 \<noteq> Loaded data" using f1 by simp
      have wb: "scans_wb st1 = Some (fresh_workbook a)" using f1 by simp
      from load_json_exit [OF l nl wb] f1
      have "r2 = Inl (SystemExit (if scan_data e = Malformed then 3 else 2))"
        and "quiet st2 = quiet ((after_init a e)\<lparr>scans_wb := Some (closed_workbook a),
              out_file := Some (Xlsx (closed_workbook a) fresh_sheets init_wb_formats)\<rparr>)"
        by (simp_all add: closed_workbook_def q1)
      with assms i r1 l False True show ?thesis
        by (intro no_input) (auto simp: try_block_def)
    next
      case True
      then obtain data where data: "scan_data e = Loaded data" by blast
      then have inf: "in_file st1 = Loaded data" using f1 by simp
      note lj = load_json_loaded [OF l inf]
      have q2: "quiet st2 = quiet (after_init a e)" using lj(1) q1 by simp
      note f2 = quiet_fields [OF q2]
      show ?thesis
      proof (cases r2)
        case (Inl x)
        with lj(3) f1 have "is_Exception x" and "\<not> readable a data" by simp_all
        with assms i r1 l Inl q2 \<open>ready a e\<close> data show ?thesis
          by (intro bad_input [of data x]) (auto simp: try_block_def)
      next
        case (Inr d)
        with lj(2) obtain v n where d: "d = data" and v: "getitem data ''value'' = Inr v"
          and n: "py_len v = Inr n" by blast
        from Inr lj(4) f1 have rd: "readable a data" by simp
        from py_iter_len [OF n] obtain items where it: "py_iter v = Inr items" by blast
        obtain r3 st3 where w: "write_scans_ws parse v st2 = (r3, st3)"
          by (cases "write_scans_ws parse v st2")
        have sc: "map_of (worksheets st2) ''Scans'' = Some (set_tab_color ''yellow'' new_worksheet)"
          using f2 by simp
        from write_scans_ws_run [OF w sc it] obtain ws2 where
          p: "populate parse init_lang_columns items 0 (scans_layout (length items)) = (r3, ws2)"
          and q3: "quiet st3 = quiet (st2\<lparr>worksheets := AList.update ''Scans'' ws2 (worksheets st2),
                                    ticks := ticks st2 + (if r3 = None then 2 else 1)\<rparr>)"
          by (auto simp: scans_layout_def)
        have q3': "quiet st3 = quiet ((after_init a e)\<lparr>
              worksheets := [(''Summary'', set_tab_color ''green'' new_worksheet), (''Scans'', ws2)],
              ticks := (if r3 = None then 2 else 1)\<rparr>)"
          using q3 f2 by (simp add: q2 fresh_sheets_def)
        show ?thesis
        proof (cases r3)
          case (Some x)
          with assms i r1 l Inr d v w have "r = r3" "st = st3"
            by (auto simp: try_block_def)
          with Some p q3' \<open>ready a e\<close> data v it rd show ?thesis
            by (intro rows [of data v items ws2]) auto
        next
          case None
          note f3 = quiet_fields [OF q3']
          obtain r4 st4 where s: "write_summary_ws v st3 = (r4, st4)"
            by (cases "write_summary_ws v st3")
          have sm: "map_of (worksheets st3) ''Summary'' = Some (set_tab_color ''green'' new_worksheet)"
            using f3 by simp
          from write_summary_ws_run [OF s sm] f3 None
          have r4: "r4 = None" and q4: "quiet st4 = quiet ((after_init a e)\<lparr>
              worksheets := [(''Summary'', summary_sheet a), (''Scans'', ws2)], ticks := 2\<rparr>)"
            by (simp_all add: q3' summary_sheet_def)
          from assms i r1 l Inr d v w None s r4 have "r = None" "st = st4"
            by (auto simp: try_block_def)
          with None p q4 \<open>ready a e\<close> data v it rd show ?thesis
            by (intro rows [of data v items ws2]) auto
        qed
      qed
    qed
  qed
qed

lemma cxsi_cases:
  assumes "cxsi parse a e = (r, st)"
  obtains
    (conflict) "\<not> ready a e" and "r = Some (SystemExit (if force a then 4 else 1))"
      and "quiet st = quiet (boot a e)"
  | (no_input) "ready a e" and "\<forall>data. scan_data e \<noteq> Loaded data"
      and "r = Some (SystemExit (if scan_data e = Malformed then 3 else 2))"
      and "quiet st = quiet ((after_init a e)\<lparr>scans_wb := Some (closed_workbook a),
              out_file := Some (Xlsx (closed_workbook a) fresh_sheets init_wb_formats)\<rparr>)"
  | (bad_input) data where "ready a e" and "scan_data e = Loaded data"
      and "\<not> readable a data"
      and "r = None" and "quiet st = quiet (after_init a e)"
  | (row_error) data v items x ws2 where "ready a e" and "scan_data e = Loaded data"
      and "readable a data" and "getitem data ''value'' = Inr v" and "py_iter v = Inr items"
      and "populate parse init_lang_columns items 0 (scans_layout (length items)) = (Some x, ws2)"
      and "r = None"
      and "quiet st = quiet ((after_init a e)\<lparr>
              worksheets := [(''Summary'', set_tab_color ''green'' new_worksheet), (''Scans'', ws2)],
              ticks := 1\<rparr>)"
  | (completed) data v items ws2 where "ready a e" and "scan_data e = Loaded data"
      and "readable a data" and "getitem data ''value'' = Inr v" and "py_iter v = Inr items"
      and "populate parse init_lang_columns items 0 (scans_layout (length items)) = (None, ws2)"
      and "r = Some (SystemExit 0)"
      and "quiet st = quiet ((after_init a e)\<lparr>
              worksheets := report_sheets a ws2, ticks := 2,
              scans_wb := Some (closed_workbook a),
              out_file := Some (Xlsx (closed_workbook a) (report_sheets a ws2) init_wb_formats)\<rparr>)"
proof -
  obtain r0 st0 where t: "try_block parse a (boot a e) = (r0, st0)"
    by (cases "try_block parse a (boot a e)")
  from t show ?thesis
  proof (cases rule: try_block_cases)
    case conflict
    with assms t show ?thesis
      by (intro that(1)) (auto simp: cxsi_def)
  next
    case no_input
    with assms t show ?thesis
      by (intro that(2)) (auto simp: cxsi_def)
  next
    case (bad_input data x)
    with assms t have "r = None" and "quiet st = quiet st0"
      by (auto simp: cxsi_def)
    with bad_input show ?thesis
      by (intro that(3) [of data]) auto
  next
    case (rows data v items ws2)
    show ?thesis
    proof (cases r0)
      case (Some x)
      with rows(6) have "is_Exception x" by (auto dest: populate_exc)
      with assms t Some have "r = None" and "quiet st = quiet st0"
        by (auto simp: cxsi_def)
      with rows Some show ?thesis
        by (intro that(4) [of data v items x ws2]) auto
    next
      case None
      obtain x st1 where ex: "exit_script 0 st0 = (x, st1)" by (cases "exit_script 0 st0")
      note f0 = quiet_fields [OF rows(7)]
      have wb: "scans_wb st0 = Some (fresh_workbook a)" using f0 by simp
      from exit_script_closes [OF ex wb] f0 None
      have x: "x = SystemExit 0" and q: "quiet st1 = quiet ((after_init a e)\<lparr>
              worksheets := report_sheets a ws2, ticks := 2,
              scans_wb := Some (closed_workbook a),
              out_file := Some (Xlsx (closed_workbook a) (report_sheets a ws2) init_wb_formats)\<rparr>)"
        by (simp_all add: rows(7) closed_workbook_def report_sheets_def)
      from assms t None ex x have "r = Some (SystemExit 0)" and "st = st1"
        by (auto simp: cxsi_def)
      with rows None q show ?thesis
        by (intro that(5) [of data v items ws2]) auto
    qed
  qed
qed

lemma cxsi_runs:
  assumes "cxsi parse a e = (r, st)" and "ready a e" and "scan_data e = Loaded data"
    and "getitem data ''value'' = Inr v" and "py_iter v = Inr items" and "sliceable v \<or> \<not> debug a"
  obtains (row_error) x ws2 where
      "populate parse init_lang_columns items 0 (scans_layout (length items)) = (Some x, ws2)"
      and "r = None"
      and "quiet st = quiet ((after_init a e)\<lparr>
              worksheets := [(''Summary'', set_tab_color ''green'' new_worksheet), (''Scans'', ws2)],
              ticks := 1\<rparr>)"
  | (completed) ws2 where
      "populate parse init_lang_columns items 0 (scans_layout (length items)) = (None, ws2)"
      and "r = Some (SystemExit 0)"
      and "quiet st = quiet ((after_init a e)\<lparr>
              worksheets := report_sheets a ws2, ticks := 2,
              scans_wb := Some (closed_workbook a),
              out_file := Some (Xlsx (closed_workbook a) (report_sheets a ws2) init_wb_formats)\<rparr>)"
proof -
  have rd: "readable a data"
    using assms(4,6) py_len_iter [OF assms(5)] by (simp add: readable_def)
  from assms(1) show ?thesis
  proof (cases rule: cxsi_cases)
    case conflict
    with assms show ?thesis by simp
  next
    case no_input
    with assms show ?thesis by simp
  next
    case (bad_input data')
    with assms rd show ?thesis by simp
  next
    case (row_error data' v' items' x ws2)
    with assms show ?thesis by (intro that(1) [of x ws2]) auto
  next
    case (completed data' v' items' ws2)
    with assms show ?thesis by (intro that(2) [of ws2]) auto
  qed
qed

lemma set_widths_cells: "cells (set_widths cs c ws) = cells ws"
  by (induction cs arbitrary: c ws) (simp_all add: set_column_def)


lemma set_lang_columns_cells: "cells (set_lang_columns reg ws) = cells ws"
  by (induction reg arbitrary: ws) (auto simp: set_column_def)


lemma scans_layout_cells: "cells (scans_layout n) = (\<lambda>_. None)"
  by (simp add: scans_layout_def layout_scans_ws_def add_table_def set_lang_columns_cells
      set_widths_cells freeze_panes_def merge_range_def set_row_def set_tab_color_def new_worksheet_def)






lemma row_lang_cell:
  assumes "convert_json_scan parse scan init_lang_columns = Inr row"
    and "map_of init_lang_columns l = Some lc" and "lang_col lc > -1"
  shows "(\<forall>p \<in> set row. cell_col (snd p) = lang_col lc \<longrightarrow> cell_value (snd p) = J (JInt 1))"
    and "(\<exists>p \<in> set row. cell_col (snd p) = lang_col lc) \<longleftrightarrow> l \<in> set (scan_languages scan)"
proof -
  from assms(1) obtain fixed where f: "build_cells parse scan fixed_cells = Inr fixed"
    and m: "map_of row = (\<lambda>k. if k \<in> set (scan_languages scan)
              then Some (flag_cell init_lang_columns k) else map_of fixed k)"
    and d: "distinct (map fst row)"
    by (rule convert_json_scan_cases)
  from registry_cols [OF assms(2)] assms(3) have lo: "33 \<le> lang_col lc" by auto
  have key: "k = l \<and> cell = flag_cell init_lang_columns l \<and> l \<in> set (scan_languages scan)"
    if p: "(k, cell) \<in> set row" and pc: "cell_col cell = lang_col lc" for k cell
    using assms(1) p
  proof (cases rule: row_cell_cases)
    case lang
    then obtain lc' where lc': "map_of init_lang_columns k = Some lc'" by auto
    with lang(2) pc have "lang_col lc' = lang_col lc" by (simp add: flag_cell_def)
    from registry_inj [OF assms(2) lc' this [symmetric] assms(3)] have "k = l" by simp
    with lang show ?thesis by simp
  next
    case (fixed fx)
    from fixed_cols [OF fixed(1,2)] pc lo show ?thesis by auto
  qed
  show "\<forall>p \<in> set row. cell_col (snd p) = lang_col lc \<longrightarrow> cell_value (snd p) = J (JInt 1)"
  proof (intro ballI impI)
    fix p assume "p \<in> set row" and "cell_col (snd p) = lang_col lc"
    with key [of "fst p" "snd p"] show "cell_value (snd p) = J (JInt 1)"
      by (simp add: flag_cell_def)
  qed
  show "(\<exists>p \<in> set row. cell_col (snd p) = lang_col lc) \<longleftrightarrow> l \<in> set (scan_languages scan)"
  proof
    assume "\<exists>p \<in> set row. cell_col (snd p) = lang_col lc"
    then obtain p where "p \<in> set row" and "cell_col (snd p) = lang_col lc" by blast
    with key [of "fst p" "snd p"] show "l \<in> set (scan_languages scan)" by simp
  next
    assume "l \<in> set (scan_languages scan)"
    with m have "map_of row l = Some (flag_cell init_lang_columns l)" by simp
    then have "(l, flag_cell init_lang_columns l) \<in> set row" by (rule map_of_SomeD)
    moreover have "cell_col (flag_cell init_lang_columns l) = lang_col lc"
      by (simp add: flag_cell_def assms(2))
    ultimately show "\<exists>p \<in> set row. cell_col (snd p) = lang_col lc" by force
  qed
qed

text \<open>The cells of the sheet row of record \<open>i\<close> after all rows are written.\<close>

lemma sheet_row:
  assumes "populate parse reg items 0 (scans_layout n) = (None, ws2)" and "i < length items"
  obtains row where "convert_json_scan parse (items ! i) reg = Inr row"
    and "\<And>b v. \<exists>p \<in> set row. cell_col (snd p) = int b \<Longrightarrow>
            \<forall>p \<in> set row. cell_col (snd p) = int b \<longrightarrow> cell_value (snd p) = v \<Longrightarrow>
            \<not> is_blank v \<Longrightarrow> cells ws2 (i + 2, b) = Some (v, None)"
    and "\<And>b. \<forall>p \<in> set row. cell_col (snd p) \<noteq> int b \<Longrightarrow> cells ws2 (i + 2, b) = None"
proof -
  from populate_row [OF assms, unfolded TABLE_TOP_ROWS_def] obtain row wa wb where
    c: "convert_json_scan parse (items ! i) reg = Inr row"
    and w: "write_row (int (0 + i + 2)) row wa = (None, wb)"
    and before: "\<forall>b. cells wa (0 + i + 2, b) = cells (scans_layout n) (0 + i + 2, b)"
    and after: "\<forall>b. cells ws2 (0 + i + 2, b) = cells wb (0 + i + 2, b)"
    by blast
  have r: "nat (int (0 + i + 2)) = i + 2" "0 + i + 2 = i + 2" by simp_all
  have 1: "cells ws2 (i + 2, b) = Some (v, None)"
    if "\<exists>p \<in> set row. cell_col (snd p) = int b"
      and "\<forall>p \<in> set row. cell_col (snd p) = int b \<longrightarrow> cell_value (snd p) = v"
      and "\<not> is_blank v" for b v
  proof -
    have "cells wb (nat (int (0 + i + 2)), b) = Some (v, None)"
      using that by (intro write_row_written [OF w]) auto
    moreover have "nat (int (0 + i + 2)) = i + 2" by arith
    ultimately have "cells wb (i + 2, b) = Some (v, None)" by (simp only:)
    moreover from after have "cells ws2 (i + 2, b) = cells wb (i + 2, b)" by simp
    ultimately show ?thesis by simp
  qed
  have 2: "cells ws2 (i + 2, b) = None" if "\<forall>p \<in> set row. cell_col (snd p) \<noteq> int b" for b
  proof -
    have "cells wb (i + 2, b) = cells wa (i + 2, b)"
      using that by (intro write_row_other [OF w]) auto
    moreover from after have "cells ws2 (i + 2, b) = cells wb (i + 2, b)" by simp
    moreover from before have "cells wa (i + 2, b) = cells (scans_layout n) (i + 2, b)"
      by simp
    ultimately show ?thesis by (simp add: scans_layout_cells)
  qed
  from that [OF c 1 2] show ?thesis by blast
qed


lemma formula_column_indices:
  "filter (\<lambda>i. formula (columns (init_scans_ws_options init_lang_columns) ! i) \<noteq> None)
      [0 ..< length (columns (init_scans_ws_options init_lang_columns))] = [17 ..< 26]"
  by (simp add: init_scans_ws_options_def fixed_columns_def init_lang_columns_def plain_column_def
      formula_column_def upt_rec [of _ "numeral n" for n] )

lemma demo_wf: "well_formed demo_parse init_lang_columns (demo_scan 7 [''Java'', ''Common''])"
  by (simp add: demo_scan_def fixed_cells_def demo_parse_def known_language_def init_lang_columns_def)

lemma demo_convert:
  "convert_json_scan demo_parse (demo_scan 7 [''Java'', ''Common'']) init_lang_columns = Inr demo_row"
  by (simp add: demo_row_def convert_json_scan_def demo_scan_def fixed_cells_def demo_parse_def
      init_lang_columns_def)

lemma well_formed_converts:
  assumes "well_formed parse reg scan"
  shows "\<exists>row. convert_json_scan parse scan reg = Inr row
           \<and> (\<forall>p \<in> set row. \<not> unsupported (cell_value (snd p)))"
proof -
  from assms obtain kv where scan: "scan = JObj kv" by (cases scan) auto
  from assms scan have ok: "list_all (\<lambda>p. source_ok parse kv (fst (snd p))) fixed_cells"
    by simp
  from assms scan obtain ls where ls: "map_of kv ''ScannedLanguages'' = Some (JArr ls)"
    and known: "list_all (known_language reg) ls"
    by (auto split: option.splits json.splits)
  from build_cells_ok [OF ok] obtain fixed where f: "build_cells parse (JObj kv) fixed_cells = Inr fixed"
    by blast
  from add_lang_cells_ok [OF known] obtain row where a: "add_lang_cells reg ls fixed = Inr row"
    by blast
  from f a ls have c: "convert_json_scan parse scan reg = Inr row"
    by (simp add: convert_json_scan_def scan)
  have "\<not> unsupported (cell_value (snd p))" if "p \<in> set row" for p
  proof -
    from that have "(fst p, snd p) \<in> set row" by simp
    with c show ?thesis
    proof (cases rule: row_cell_cases)
      case lang
      then show ?thesis by (simp add: flag_cell_def)
    next
      case (fixed fx)
      from build_cells_mem [OF fixed(1,2)] obtain src where
        s: "(fst p, src, cell_col (snd p)) \<in> set fixed_cells"
        and e: "eval_source parse scan src = Inr (cell_value (snd p))" by blast
      from ok s have "source_ok parse kv src" by (auto simp: list_all_iff)
      from source_ok_eval [OF this] e scan show ?thesis by auto
    qed
  qed
  with c show ?thesis by blast
qed

lemma completed_run:
  assumes "cxsi parse a e = (Some (SystemExit 0), st)"
  obtains ws2 where "ready a e"
    and "populate parse init_lang_columns (records e) 0 (scans_layout (length (records e))) = (None, ws2)"
    and "out_file st = Some (Xlsx (closed_workbook a) (report_sheets a ws2) init_wb_formats)"
    and "worksheets st = report_sheets a ws2"
    and "scans_wb st = Some (closed_workbook a)"
    and "report_sheet st ''Scans'' = Some ws2"
    and "report_sheet st ''Summary'' = Some (summary_sheet a)"
  using assms
proof (cases rule: cxsi_cases)
  case (completed data v items ws2)
  note f = quiet_fields [OF completed(8)]
  have r: "records e = items"
    using completed by (simp add: records_def)
  show ?thesis
    using completed f r
    by (intro that [of ws2]) (simp_all add: report_sheet_def report_sheets_def)
qed (simp_all split: if_splits)

lemma run_completes:
  assumes "ready a e" and "scan_data e = Loaded data" and "getitem data ''value'' = Inr (JArr recs)"
    and "\<forall>s \<in> set recs. well_formed parse init_lang_columns s"
  shows "fst (cxsi parse a e) = Some (SystemExit 0)"
proof -
  obtain r st where c: "cxsi parse a e = (r, st)" by (cases "cxsi parse a e")
  have it: "py_iter (JArr recs) = Inr recs" by simp
  have sl: "sliceable (JArr recs) \<or> \<not> debug a" by simp
  have okp: "fst (populate parse init_lang_columns recs 0 (scans_layout (length recs))) = None"
    using assms(4) by (intro populate_ok) (auto dest: well_formed_converts)
  from c assms(1,2,3) it sl have "r = Some (SystemExit 0)"
  proof (cases rule: cxsi_runs)
    case (row_error x ws2)
    with okp show ?thesis by simp
  next
    case (completed ws2)
    then show ?thesis by simp
  qed
  with c show ?thesis by simp
qed

lemma write_row_skip:
  assumes "distinct (map fst row)" and "map_of row l = Some cell" and "cell_col cell < 0"
    and "\<not> unsupported (cell_value cell)"
  shows "write_row r row ws = write_row r (AList.delete l row) ws"
  using assms(1,2)
proof (induction row arbitrary: ws)
  case Nil
  then show ?case by simp
next
  case (Cons p row)
  obtain k c where p: "p = (k, c)" by (cases p)
  show ?case
  proof (cases "k = l")
    case True
    with Cons.prems p have c: "c = cell" by simp
    from Cons.prems(1) p True have "l \<notin> fst ` set row" by auto
    then have "AList.delete l row = row"
      by (induction row) (auto simp: AList.delete_eq)
    moreover have "ws_write r (cell_col c) (cell_value c) None ws = Inr ws"
      using assms(3,4) c by (simp add: ws_write_def)
    ultimately show ?thesis using p True by (simp add: AList.delete_eq)
  next
    case False
    with Cons.prems p have "distinct (map fst row)" and "map_of row l = Some cell" by auto
    from Cons.IH [OF this] have "write_row r row ws' = write_row r (AList.delete l row) ws'" for ws' .
    with p False show ?thesis by (simp add: AList.delete_eq split: sum.splits)
  qed
qed

























lemma unknown_language_run:
  assumes "ready a e" and "scan_data e = Loaded data" and "getitem data ''value'' = Inr (JArr recs)"
    and "s \<in> set recs" and "l \<in> set (scan_languages s)" and "map_of init_lang_columns l = None"
    and "cxsi parse a e = (r, st)"
  shows "r = None \<and> out_file st = None \<and> scans_wb st = Some (fresh_workbook a)"
proof -
  have "\<exists>x. convert_json_scan parse s init_lang_columns = Inl x"
  proof (cases "convert_json_scan parse s init_lang_columns")
    case (Inl x)
    then show ?thesis by simp
  next
    case (Inr row)
    then obtain fixed where "set (scan_languages s) \<subseteq> dom (map_of init_lang_columns)"
      by (rule convert_json_scan_cases)
    with assms(5,6) show ?thesis by auto
  qed
  then obtain x where "convert_json_scan parse s init_lang_columns = Inl x" ..
  from populate_fails [OF assms(4) this]
  have nf: "fst (populate parse init_lang_columns recs 0 (scans_layout (length recs))) \<noteq> None" .
  have it: "py_iter (JArr recs) = Inr recs" by simp
  have sl: "sliceable (JArr recs) \<or> \<not> debug a" by simp
  from assms(7,1,2,3) it sl show ?thesis
  proof (cases rule: cxsi_runs)
    case (row_error x ws2)
    from quiet_fields [OF row_error(3)] row_error(2) show ?thesis by simp
  next
    case (completed ws2)
    with nf show ?thesis by simp
  qed
qed

lemma no_input_run:
  assumes "ready a e" and "\<forall>data. scan_data e \<noteq> Loaded data" and "cxsi parse a e = (r, st)"
  shows "r = Some (SystemExit (if scan_data e = Malformed then 3 else 2))
     \<and> out_file st = Some (Xlsx (closed_workbook a) fresh_sheets init_wb_formats)"
  using assms(3)
proof (cases rule: cxsi_cases)
  case no_input
  from quiet_fields [OF no_input(4)] no_input(3) show ?thesis by simp
qed (use assms in simp_all)


section \<open>Output conflict\<close>

text \<open>
  Claim C6. When the output file exists and overwriting is not permitted, the run ends
  with exit status 1 after logging the conflict as an error; no workbook has been
  created, no sheet exists, and the file at the output path is the one that was there.
\<close>

theorem output_conflict_aborts:
  assumes "existing e \<noteq> None" and "\<not> force a"
  shows "exit_status (fst (cxsi parse a e)) = 1
    \<and> scans_wb (snd (cxsi parse a e)) = None
    \<and> worksheets (snd (cxsi parse a e)) = []
    \<and> out_file (snd (cxsi parse a e)) = existing e
    \<and> (ERROR, ''Excel file exists: {}\<newline>Use -force flag to overwrite'', [S (excel_file a)])
          \<in> set (logged (snd (cxsi parse a e)))"
  using assms
  by (simp add: cxsi_def try_block_def init_def init_workbook_def create_scans_wb_def
      exit_script_def log_msg_def init_logging_def boot_def)

theorem output_conflict_aborts_witness:
  "exit_status (fst (cxsi (\<lambda>s. None) (demo_args False) (demo_env (Some Other) Missing))) = 1
    \<and> scans_wb (snd (cxsi (\<lambda>s. None) (demo_args False) (demo_env (Some Other) Missing))) = None
    \<and> out_file (snd (cxsi (\<lambda>s. None) (demo_args False) (demo_env (Some Other) Missing))) = Some Other"
  using output_conflict_aborts [of "demo_env (Some Other) Missing" "demo_args False" "\<lambda>s. None"]
  by (simp add: demo_args_def demo_env_def)

section \<open>Formula columns\<close>

text \<open>
  Claim C10. Every cell of a successfully normalized record has its column index in
  0..16, 26..32, 33..51 or equal to -1; the columns of the table that are bound to a
  formula are exactly those at indices 17 to 25; hence writing the row leaves every cell
  in the columns 17 to 25 as it was.
\<close>

theorem formula_columns_never_written:
  assumes "convert_json_scan parse scan init_lang_columns = Inr row"
  shows "(\<forall>p \<in> set row. cell_col (snd p) \<in> {0..16} \<union> {26..32} \<union> {33..51} \<union> {-1})
    \<and> filter (\<lambda>i. formula (columns (init_scans_ws_options init_lang_columns) ! i) \<noteq> None)
          [0 ..< length (columns (init_scans_ws_options init_lang_columns))] = [17 ..< 26]
    \<and> (\<forall>r ws res ws' a c. write_row r row ws = (res, ws') \<longrightarrow> 17 \<le> c \<longrightarrow> c \<le> 25 \<longrightarrow>
          cells ws' (a, c) = cells ws (a, c))"
proof (intro conjI allI impI ballI)
  fix p assume "p \<in> set row"
  then have "(fst p, snd p) \<in> set row" by simp
  from row_cols [OF assms this]
  show "cell_col (snd p) \<in> {0..16} \<union> {26..32} \<union> {33..51} \<union> {-1}" by auto
next
  show "filter (\<lambda>i. formula (columns (init_scans_ws_options init_lang_columns) ! i) \<noteq> None)
          [0 ..< length (columns (init_scans_ws_options init_lang_columns))] = [17 ..< 26]"
    by (rule formula_column_indices)
next
  fix r ws res ws' a and c :: nat
  assume w: "write_row r row ws = (res, ws')" and c: "17 \<le> c" "c \<le> 25"
  have "\<forall>p \<in> set row. cell_col (snd p) \<noteq> int c"
  proof
    fix p assume "p \<in> set row"
    then have "(fst p, snd p) \<in> set row" by simp
    from row_cols [OF assms this] c show "cell_col (snd p) \<noteq> int c" by auto
  qed
  then show "cells ws' (a, c) = cells ws (a, c)"
    by (intro write_row_other [OF w]) simp
qed

theorem formula_columns_never_written_witness:
  "cells (snd (write_row 2 demo_row new_worksheet)) (2, 17) = None
   \<and> cells (snd (write_row 2 demo_row new_worksheet)) (2, 25) = None"
proof -
  obtain res ws' where w: "write_row 2 demo_row new_worksheet = (res, ws')"
    by (cases "write_row 2 demo_row new_worksheet")
  from formula_columns_never_written [OF demo_convert] w
  have "cells ws' (2, 17) = cells new_worksheet (2, 17)"
    and "cells ws' (2, 25) = cells new_worksheet (2, 25)"
    by simp_all
  with w show ?thesis by (simp add: new_worksheet_def)
qed

section \<open>Tracked and untracked languages\<close>

text \<open>
  Claim C8. In the report of a completed run, the sheet row of record \<open>i\<close> (row \<open>i + 2\<close>)
  holds the presence flag 1 in the registry column of every tracked language that is in
  the record's language-usage list, and holds nothing in the column of a tracked language
  that is not in the list.
\<close>

theorem language_flags_in_row:
  assumes "cxsi parse a e = (Some (SystemExit 0), st)"
    and "i < length (records e)"
    and "map_of init_lang_columns l = Some lc" and "lang_col lc > -1"
  shows "\<exists>ws. report_sheet st ''Scans'' = Some ws
     \<and> cells ws (i + 2, nat (lang_col lc)) =
         (if l \<in> set (scan_languages (records e ! i)) then Some (J (JInt 1), None) else None)"
proof -
  from assms(1) obtain ws2 where
    p: "populate parse init_lang_columns (records e) 0 (scans_layout (length (records e))) = (None, ws2)"
    and sh: "report_sheet st ''Scans'' = Some ws2"
    by (rule completed_run)
  from registry_cols [OF assms(3)] assms(4) have col: "int (nat (lang_col lc)) = lang_col lc" by auto
  have "cells ws2 (i + 2, nat (lang_col lc)) =
         (if l \<in> set (scan_languages (records e ! i)) then Some (J (JInt 1), None) else None)"
    using p assms(2)
  proof (rule sheet_row)
    fix row
    assume c: "convert_json_scan parse (records e ! i) init_lang_columns = Inr row"
      and written: "\<And>b v. \<exists>p \<in> set row. cell_col (snd p) = int b \<Longrightarrow>
            \<forall>p \<in> set row. cell_col (snd p) = int b \<longrightarrow> cell_value (snd p) = v \<Longrightarrow>
            \<not> is_blank v \<Longrightarrow> cells ws2 (i + 2, b) = Some (v, None)"
      and empty: "\<And>b. \<forall>p \<in> set row. cell_col (snd p) \<noteq> int b \<Longrightarrow> cells ws2 (i + 2, b) = None"
    note lang = row_lang_cell [OF c assms(3,4)]
    show ?thesis
    proof (cases "l \<in> set (scan_languages (records e ! i))")
      case True
      with lang have "\<exists>p \<in> set row. cell_col (snd p) = lang_col lc"
        and "\<forall>p \<in> set row. cell_col (snd p) = lang_col lc \<longrightarrow> cell_value (snd p) = J (JInt 1)"
        by simp_all
      then have "\<exists>p \<in> set row. cell_col (snd p) = int (nat (lang_col lc))"
        and "\<forall>p \<in> set row. cell_col (snd p) = int (nat (lang_col lc)) \<longrightarrow> cell_value (snd p) = J (JInt 1)"
        unfolding col .
      from written [OF this] True show ?thesis by simp
    next
      case False
      with lang(2) have "\<forall>p \<in> set row. cell_col (snd p) \<noteq> lang_col lc"
        by auto
      then have "\<forall>p \<in> set row. cell_col (snd p) \<noteq> int (nat (lang_col lc))"
        unfolding col .
      from empty [OF this] False show ?thesis by simp
    qed
  qed
  with sh show ?thesis by simp
qed

theorem language_flags_in_row_witness:
  "\<exists>ws. report_sheet (snd (cxsi demo_parse (demo_args False)
            (demo_env None (demo_data [demo_scan 7 [''Java'', ''Common'']])))) ''Scans'' = Some ws
     \<and> cells ws (2, 40) = Some (J (JInt 1), None)
     \<and> cells ws (2, 41) = None"
proof -
  let ?e = "demo_env None (demo_data [demo_scan 7 [''Java'', ''Common'']])"
  let ?a = "demo_args False"
  have wf: "\<forall>s \<in> set [demo_scan 7 [''Java'', ''Common'']]. well_formed demo_parse init_lang_columns s"
    using demo_wf by simp
  have "fst (cxsi demo_parse ?a ?e) = Some (SystemExit 0)"
    by (rule run_completes [where data = "JObj [(''value'', JArr [demo_scan 7 [''Java'', ''Common'']])]", OF _ _ _ wf])
      (simp_all add: ready_def demo_env_def demo_data_def)
  then obtain st where c: "cxsi demo_parse ?a ?e = (Some (SystemExit 0), st)"
    by (cases "cxsi demo_parse ?a ?e") auto
  have recs: "records ?e = [demo_scan 7 [''Java'', ''Common'']]"
    by (simp add: records_def demo_env_def demo_data_def)
  have langs: "scan_languages (demo_scan 7 [''Java'', ''Common'']) = [''Java'', ''Common'']"
    by (simp add: scan_languages_def demo_scan_def)
  have java: "map_of init_lang_columns ''Java'' = Some \<lparr>lang_col = 40, lang_hidden = DEFAULT_HIDE\<rparr>"
    and js: "map_of init_lang_columns ''JavaScript'' = Some \<lparr>lang_col = 41, lang_hidden = DEFAULT_HIDE\<rparr>"
    by (simp_all add: init_lang_columns_def)
  have two: "0 + 2 = (2::nat)" by simp
  from language_flags_in_row [OF c _ java, of 0] recs langs
  have 1: "\<exists>ws. report_sheet st ''Scans'' = Some ws \<and> cells ws (2, 40) = Some (J (JInt 1), None)"
    unfolding two by simp
  from language_flags_in_row [OF c _ js, of 0] recs langs
  have 2: "\<exists>ws. report_sheet st ''Scans'' = Some ws \<and> cells ws (2, 41) = None"
    unfolding two by simp
  from 1 2 c show ?thesis by auto
qed

text \<open>
  Claim C4. A well-formed record whose language-usage list names an untracked language
  (registry index -1) is normalized successfully; its row has the cell for that language
  at column -1, and writing the row gives the same sheet as writing the row without that
  cell: nothing is written for the untracked language.
\<close>

theorem untracked_language_not_written:
  assumes "well_formed parse init_lang_columns scan"
    and "l \<in> set (scan_languages scan)"
    and "map_of init_lang_columns l = Some lc" and "lang_col lc = -1"
  shows "\<exists>row. convert_json_scan parse scan init_lang_columns = Inr row
     \<and> map_of row l = Some \<lparr>cell_value = J (JInt 1), cell_col = -1\<rparr>
     \<and> (\<forall>r ws. write_row r row ws = write_row r (AList.delete l row) ws)"
proof -
  from well_formed_converts [OF assms(1)] obtain row where
    c: "convert_json_scan parse scan init_lang_columns = Inr row" by blast
  from c obtain fixed where
    m: "map_of row = (\<lambda>k. if k \<in> set (scan_languages scan)
              then Some (flag_cell init_lang_columns k) else map_of fixed k)"
    and d: "distinct (map fst row)"
    by (rule convert_json_scan_cases)
  from m assms(2,3,4) have ml: "map_of row l = Some \<lparr>cell_value = J (JInt 1), cell_col = -1\<rparr>"
    by (simp add: flag_cell_def)
  have "write_row r row ws = write_row r (AList.delete l row) ws" for r ws
    by (rule write_row_skip [OF d ml]) simp_all
  with c ml show ?thesis by blast
qed

theorem untracked_language_not_written_witness:
  "\<exists>row. convert_json_scan demo_parse (demo_scan 7 [''Java'', ''Common'']) init_lang_columns = Inr row
     \<and> map_of row ''Common'' = Some \<lparr>cell_value = J (JInt 1), cell_col = -1\<rparr>
     \<and> write_row 2 row new_worksheet = write_row 2 (AList.delete ''Common'' row) new_worksheet"
proof -
  have langs: "''Common'' \<in> set (scan_languages (demo_scan 7 [''Java'', ''Common'']))"
    by (simp add: scan_languages_def demo_scan_def)
  have reg: "map_of init_lang_columns ''Common'' = Some \<lparr>lang_col = -1, lang_hidden = DEFAULT_HIDE\<rparr>"
    by (simp add: init_lang_columns_def)
  from untracked_language_not_written [OF demo_wf langs reg] show ?thesis by auto
qed

section \<open>One row per record\<close>



section \<open>The duration column\<close>



section \<open>The number of table columns\<close>




section \<open>A record with an unknown language\<close>

text \<open>
  Claim C1, evaluated on a record set whose second record names the language Fortran,
  which is not in the registry. The run stops at that record: no report is stored and
  the workbook is left open. The \<^verbatim>\<open>KeyError\<close> is caught by the handler of \<^verbatim>\<open>cxsi\<close>, which
  logs it and returns, so the process completes with status 0, where the other error
  paths exit with a status from 1 to 4.
\<close>

theorem unknown_language_exit_status:
  "exit_status (fst (cxsi demo_parse (demo_args False)
       (demo_env None (demo_data [demo_scan 7 [''Java''], demo_scan 8 [''Fortran''], demo_scan 9 [''Java'']])))) = 0
   \<and> out_file (snd (cxsi demo_parse (demo_args False)
       (demo_env None (demo_data [demo_scan 7 [''Java''], demo_scan 8 [''Fortran''], demo_scan 9 [''Java'']])))) = None
   \<and> scans_wb (snd (cxsi demo_parse (demo_args False)
       (demo_env None (demo_data [demo_scan 7 [''Java''], demo_scan 8 [''Fortran''], demo_scan 9 [''Java'']]))))
       = Some (fresh_workbook (demo_args False))
   \<and> \<not> fileclosed (fresh_workbook (demo_args False))"
proof -
  let ?recs = "[demo_scan 7 [''Java''], demo_scan 8 [''Fortran''], demo_scan 9 [''Java'']]"
  let ?e = "demo_env None (demo_data ?recs)"
  obtain r st where c: "cxsi demo_parse (demo_args False) ?e = (r, st)"
    by (cases "cxsi demo_parse (demo_args False) ?e")
  have "r = None \<and> out_file st = None \<and> scans_wb st = Some (fresh_workbook (demo_args False))"
  proof (rule unknown_language_run [where s = "demo_scan 8 [''Fortran'']" and l = "''Fortran''"
        and data = "JObj [(''value'', JArr ?recs)]" and recs = ?recs, OF _ _ _ _ _ _ c])
    show "ready (demo_args False) ?e" by (simp add: ready_def demo_env_def)
    show "scan_data ?e = Loaded (JObj [(''value'', JArr ?recs)])"
      by (simp add: demo_env_def demo_data_def)
    show "getitem (JObj [(''value'', JArr ?recs)]) ''value'' = Inr (JArr ?recs)" by simp
    show "demo_scan 8 [''Fortran''] \<in> set ?recs" by simp
    show "''Fortran'' \<in> set (scan_languages (demo_scan 8 [''Fortran'']))"
      by (simp add: scan_languages_def demo_scan_def)
    show "map_of init_lang_columns ''Fortran'' = None"
      by (simp add: init_lang_columns_def)
  qed
  with c show ?thesis by simp
qed

section \<open>Closing the workbook\<close>

text \<open>
  Claim C7, as stated: an aborted run leaves no output file behind. It fails when the
  scan data file is empty: the run exits with status 2, and \<^verbatim>\<open>exit_script\<close> closes the
  workbook on the way, which stores a workbook with two empty sheets at an output path
  where no file was before.
\<close>

theorem abort_leaves_file_counterexample:
  "exit_status (fst (cxsi demo_parse (demo_args False) (demo_env None Empty))) = 2
   \<and> existing (demo_env None Empty) = None
   \<and> out_file (snd (cxsi demo_parse (demo_args False) (demo_env None Empty)))
       = Some (Xlsx (closed_workbook (demo_args False)) fresh_sheets init_wb_formats)
   \<and> is_report (out_file (snd (cxsi demo_parse (demo_args False) (demo_env None Empty))))"
proof -
  let ?e = "demo_env None Empty"
  obtain r st where c: "cxsi demo_parse (demo_args False) ?e = (r, st)"
    by (cases "cxsi demo_parse (demo_args False) ?e")
  have "ready (demo_args False) ?e" and "\<forall>data. scan_data ?e \<noteq> Loaded data"
    by (simp_all add: ready_def demo_env_def)
  from no_input_run [OF this c] c show ?thesis
    by (simp add: demo_env_def)
qed

text \<open>
  Claim C7, amended: whenever a run ends through \<^verbatim>\<open>exit_script\<close> (normal completion, an
  output conflict, a failed removal of the old file, a missing, empty or malformed scan
  data file), the workbook, if it has been created, is closed and stored at the output
  path with the sheets as they are at that point; if it has not been created, the output
  path is left as it was.
\<close>

theorem exit_script_closes_workbook:
  assumes "cxsi parse a e = (Some x, st)"
  shows "(case scans_wb st of
            None \<Rightarrow> out_file st = existing e
          | Some wb \<Rightarrow> fileclosed wb \<and> out_file st = Some (Xlsx wb (worksheets st) (wb_formats st)))"
  using assms
proof (cases rule: cxsi_cases)
  case conflict
  from quiet_fields [OF conflict(3)] show ?thesis by (simp add: boot_def)
next
  case no_input
  from quiet_fields [OF no_input(4)] show ?thesis by (simp add: closed_workbook_def)
next
  case (completed data v items ws2)
  from quiet_fields [OF completed(8)] show ?thesis by (simp add: closed_workbook_def)
qed simp_all

theorem exit_script_closes_workbook_witness:
  "scans_wb (snd (cxsi demo_parse (demo_args False) (demo_env None Empty)))
      = Some (closed_workbook (demo_args False))
   \<and> fileclosed (closed_workbook (demo_args False))
   \<and> out_file (snd (cxsi demo_parse (demo_args False) (demo_env None Empty)))
      = Some (Xlsx (closed_workbook (demo_args False))
           (worksheets (snd (cxsi demo_parse (demo_args False) (demo_env None Empty))))
           (wb_formats (snd (cxsi demo_parse (demo_args False) (demo_env None Empty)))))"
proof -
  let ?e = "demo_env None Empty"
  obtain r st where c: "cxsi demo_parse (demo_args False) ?e = (r, st)"
    by (cases "cxsi demo_parse (demo_args False) ?e")
  have "ready (demo_args False) ?e" and "\<forall>data. scan_data ?e \<noteq> Loaded data"
    by (simp_all add: ready_def demo_env_def)
  from no_input_run [OF this c]
  have r: "r = Some (SystemExit 2)"
    and o: "out_file st = Some (Xlsx (closed_workbook (demo_args False)) fresh_sheets init_wb_formats)"
    by (simp_all add: demo_env_def)
  from c r have c': "cxsi demo_parse (demo_args False) ?e = (Some (SystemExit 2), st)" by simp
  from exit_script_closes_workbook [OF c'] o c show ?thesis
    by (cases "scans_wb st") (auto simp: closed_workbook_def demo_env_def)
qed

section \<open>Determinism\<close>



end
